theory Spec2Isabelle
  imports Main "HOL-Library.Word" "HOL-Library.Sublist"
begin

unbundle bit_operations_syntax

section \<open>Machine types and platform constants\<close>

text \<open>
  The program is written against the Win32 and WinRT interfaces on a 64-bit target.
  \<open>LONG\<close>, \<open>UINT\<close>, \<open>DWORD\<close> and \<open>BOOL\<close> are 32 bits wide; pointers, \<open>HWND\<close>,
  \<open>WPARAM\<close>, \<open>LPARAM\<close>, \<open>LRESULT\<close> and \<open>size_t\<close> are 64 bits wide. A signed
  quantity is read with \<open>sint\<close>. The null pointer is the word 0.
\<close>

type_synonym LONG = "32 word"
type_synonym UINT = "32 word"
type_synonym DWORD = "32 word"
type_synonym BOOL = "32 word"
type_synonym size_t = "64 word"
type_synonym addr = "64 word"
type_synonym fptr = "64 word"
type_synonym HWND = "64 word"
type_synonym WPARAM = "64 word"
type_synonym LPARAM = "64 word"
type_synonym LRESULT = "64 word"

text \<open>
  Message numbers and style bits, with the values the Windows SDK headers give them.
  \<open>WM_APP_DISPATCH\<close> is the program's own constant, defined as \<open>WM_APP\<close>.
\<close>

definition WM_DESTROY :: UINT where "WM_DESTROY = 0x0002"
definition WM_SIZE :: UINT where "WM_SIZE = 0x0005"
definition WM_CLOSE :: UINT where "WM_CLOSE = 0x0010"
definition WM_QUIT :: UINT where "WM_QUIT = 0x0012"
definition WM_GETMINMAXINFO :: UINT where "WM_GETMINMAXINFO = 0x0024"
definition WM_APP :: UINT where "WM_APP = 0x8000"
definition WM_APP_DISPATCH :: UINT where "WM_APP_DISPATCH = WM_APP"

definition WS_CAPTION :: LONG where "WS_CAPTION = 0x00C00000"
definition WS_THICKFRAME :: LONG where "WS_THICKFRAME = 0x00040000"

section \<open>Rectangles\<close>

text \<open>
  \<open>RECT\<close> is the Win32 rectangle of four \<open>LONG\<close> edges. \<open>Rect\<close> is the WinRT
  rectangle of four single-precision floats; a float that results from converting an
  integer is itself an integer, so a \<open>Rect\<close> field is modelled by that integer.
\<close>

record RECT =
  r_left :: LONG
  r_top :: LONG
  r_right :: LONG
  r_bottom :: LONG

record Rect =
  X :: int
  Y :: int
  Width :: int
  Height :: int

text \<open>
  The implicit conversion of a \<open>LONG\<close> to \<open>float\<close>: a float keeps 24 significant
  bits, and a value that needs more is rounded to the nearest representable one, ties
  to the even significand. The magnitude of a \<open>LONG\<close> is at most \<open>2 ^ 31\<close>, so at
  most 8 low bits are dropped.
\<close>

definition dropped_bits :: "nat \<Rightarrow> nat" where
  "dropped_bits a =
     (if a < 2 ^ 24 then 0 else if a < 2 ^ 25 then 1 else if a < 2 ^ 26 then 2
      else if a < 2 ^ 27 then 3 else if a < 2 ^ 28 then 4 else if a < 2 ^ 29 then 5
      else if a < 2 ^ 30 then 6 else if a < 2 ^ 31 then 7 else 8)"

definition round_to_float :: "int \<Rightarrow> int" where
  "round_to_float v =
     (let a = nat \<bar>v\<bar>;
          ulp = 2 ^ dropped_bits a;
          q = a div ulp;
          r = a mod ulp;
          q' = (if ulp < 2 * r \<or> (2 * r = ulp \<and> odd q) then q + 1 else q)
      in sgn v * int (q' * ulp))"

definition LONG_to_float :: "LONG \<Rightarrow> int" where
  "LONG_to_float x = round_to_float (sint x)"

section \<open>The native window as the platform keeps it\<close>

text \<open>
  The attributes of a native window that the program reads and writes: the window
  rectangle, the style word and the \<open>GWLP_USERDATA\<close> slot. \<open>history\<close> records, in
  order, the mutating calls made on the window, so that mutations can be counted.
\<close>

datatype win_call = CallSetWindowLong LONG | CallSetWindowPos LONG LONG LONG LONG

record native_window =
  wrect :: RECT
  wstyle :: LONG
  userdata :: addr
  history :: "win_call list"

definition GetWindowRect :: "native_window \<Rightarrow> RECT" where
  "GetWindowRect w = wrect w"

definition GetWindowLong_STYLE :: "native_window \<Rightarrow> LONG" where
  "GetWindowLong_STYLE w = wstyle w"

definition SetWindowLong_STYLE :: "LONG \<Rightarrow> native_window \<Rightarrow> native_window" where
  "SetWindowLong_STYLE v w = w\<lparr>wstyle := v, history := history w @ [CallSetWindowLong v]\<rparr>"

text \<open>
  \<open>SetWindowPos\<close> with position \<open>(x, y)\<close> and size \<open>(cx, cy)\<close>: the window rectangle
  becomes the one with that origin and that extent. The platform is taken to apply the
  request as given; \<open>SetWindowLong\<close> likewise stores the style word it is handed.
\<close>

definition SetWindowPos :: "LONG \<Rightarrow> LONG \<Rightarrow> LONG \<Rightarrow> LONG \<Rightarrow> native_window \<Rightarrow> native_window" where
  "SetWindowPos x y cx cy w =
     w\<lparr>wrect := \<lparr>r_left = x, r_top = y, r_right = x + cx, r_bottom = y + cy\<rparr>,
       history := history w @ [CallSetWindowPos x y cx cy]\<rparr>"

section \<open>The embedded control and the fullscreen handler\<close>

record WebViewControl =
  Bounds :: Rect
  ContainsFullScreenElement :: bool

text \<open>
  The handler registered with \<open>ContainsFullScreenElementChanged\<close> is a mutable closure
  over three locals of the constructor, captured by copy: \<open>saved_fullscreen\<close>,
  \<open>saved_rect\<close> and \<open>saved_style\<close>. \<open>saved_rect\<close> is declared without an
  initialiser, so it holds no value (\<open>None\<close>) until it is first written.
\<close>

record closure =
  saved_fullscreen :: bool
  saved_rect :: "RECT option"
  saved_style :: LONG

definition initial_closure :: closure where
  "initial_closure = \<lparr>saved_fullscreen = False, saved_rect = None, saved_style = - 1\<rparr>"

datatype error =
  UninitializedRead
  | NullDereference
  | DanglingPointer
  | NullCall
  | InvalidPointer
  | IllegalMethodCall

text \<open>
  One run of the handler. \<open>rcMonitor\<close> gives the rectangle that \<open>GetMonitorInfo\<close>
  reports for the monitor nearest to the window; \<open>sender\<close> is the control that raised
  the event. The handler reads \<open>sender.ContainsFullScreenElement()\<close> twice, both times
  before it touches the window.
\<close>

definition fullscreen_handler ::
  "(native_window \<Rightarrow> RECT) \<Rightarrow> WebViewControl \<Rightarrow> closure \<times> native_window
     \<Rightarrow> error + closure \<times> native_window" where
  "fullscreen_handler rcMonitor sender cw =
     (case cw of (c, w) \<Rightarrow>
        let fullscreen = ContainsFullScreenElement sender in
        if fullscreen = saved_fullscreen c then Inr (c, w)
        else
          let c1 = c\<lparr>saved_fullscreen := fullscreen\<rparr> in
          if ContainsFullScreenElement sender then
            let c2 = c1\<lparr>saved_rect := Some (GetWindowRect w)\<rparr>;
                c3 = c2\<lparr>saved_style := GetWindowLong_STYLE w\<rparr>;
                w1 = SetWindowLong_STYLE (saved_style c3 AND NOT (WS_CAPTION OR WS_THICKFRAME)) w;
                screen_rect = rcMonitor w1;
                w2 = SetWindowPos (r_left screen_rect) (r_top screen_rect)
                       (r_right screen_rect - r_left screen_rect)
                       (r_bottom screen_rect - r_top screen_rect) w1
            in Inr (c3, w2)
          else
            (case saved_rect c1 of
               None \<Rightarrow> Inl UninitializedRead
             | Some r \<Rightarrow>
                 let w1 = SetWindowLong_STYLE (saved_style c1) w;
                     w2 = SetWindowPos (r_left r) (r_top r)
                            (r_right r - r_left r) (r_bottom r - r_top r) w1
                 in Inr (c1, w2)))"

text \<open>A sequence of notifications, handled one after the other.\<close>

fun notifications ::
  "(native_window \<Rightarrow> RECT) \<Rightarrow> WebViewControl list \<Rightarrow> closure \<times> native_window
     \<Rightarrow> error + closure \<times> native_window" where
  "notifications rcMonitor [] cw = Inr cw"
| "notifications rcMonitor (sender # rest) cw =
     (case fullscreen_handler rcMonitor sender cw of
        Inl e \<Rightarrow> Inl e
      | Inr cw' \<Rightarrow> notifications rcMonitor rest cw')"

text \<open>
  What holds of the closure and the window all along, when the handler starts from the
  initial closure at the window \<open>w0\<close> and nothing else touches the window: the saved
  rectangle and style are those of \<open>w0\<close> while the flag is true, the window has them
  while it is false, and the calls made so far are those of enters and restores.
\<close>

definition saved_from :: "native_window \<Rightarrow> closure \<times> native_window \<Rightarrow> bool" where
  "saved_from w0 cw =
     (case cw of (c, w) \<Rightarrow>
        \<exists>hs. history w = history w0 @ hs
          \<and> (saved_fullscreen c \<longrightarrow>
               saved_rect c = Some (wrect w0) \<and> saved_style c = wstyle w0)
          \<and> (\<not> saved_fullscreen c \<longrightarrow> wrect w = wrect w0 \<and> wstyle w = wstyle w0)
          \<and> (\<forall>v. CallSetWindowLong v \<in> set hs \<longrightarrow>
               v = wstyle w0 \<or> v = wstyle w0 AND NOT (WS_CAPTION OR WS_THICKFRAME))
          \<and> (hs = [] \<longrightarrow> \<not> saved_fullscreen c)
          \<and> (hs \<noteq> [] \<longrightarrow>
               hd hs = CallSetWindowLong (wstyle w0 AND NOT (WS_CAPTION OR WS_THICKFRAME))))"

definition style_mutations :: "native_window \<Rightarrow> nat" where
  "style_mutations w = length (filter (\<lambda>c. case c of CallSetWindowLong _ \<Rightarrow> True | _ \<Rightarrow> False) (history w))"

definition rect_mutations :: "native_window \<Rightarrow> nat" where
  "rect_mutations w = length (filter (\<lambda>c. case c of CallSetWindowPos _ _ _ _ \<Rightarrow> True | _ \<Rightarrow> False) (history w))"

section \<open>Configuration, handles and dispatch items\<close>

record webview_options =
  initial_width :: size_t
  initial_height :: size_t
  minimum_width :: size_t
  minimum_height :: size_t
  borderless :: bool
  debug :: bool
  data :: addr
  message :: fptr
  closed :: fptr

text \<open>
  \<open>struct _webview\<close>. The member \<open>webview\<close> is \<open>nullptr\<close> (\<open>None\<close>) until the control
  has been created; the handle owns its control.
\<close>

record webview_struct =
  hwnd :: HWND
  webview :: "WebViewControl option"
  opts :: webview_options

text \<open>\<open>struct Dispatch\<close>; its member \<open>data\<close> is written \<open>data'\<close> here.\<close>

record Dispatch =
  data' :: addr
  func :: fptr

record POINT =
  pt_x :: LONG
  pt_y :: LONG

record MINMAXINFO =
  ptReserved :: POINT
  ptMaxSize :: POINT
  ptMaxPosition :: POINT
  ptMinTrackSize :: POINT
  ptMaxTrackSize :: POINT

record MSG =
  msg_hwnd :: HWND
  msg_message :: UINT
  msg_wParam :: WPARAM
  msg_lParam :: LPARAM

section \<open>The UI thread's message queue\<close>

text \<open>
  An entry of the queue is what the next \<open>GetMessage\<close> call retrieves: a message, or a
  failure of the retrieval. \<open>GetMessage\<close> returns 0 for \<open>WM_QUIT\<close>, \<open>-1\<close> for a
  failure and a nonzero value for every other message.
\<close>

datatype retrieval = Message MSG | Failure

definition GetMessage_result :: "retrieval \<Rightarrow> BOOL" where
  "GetMessage_result r =
     (case r of Failure \<Rightarrow> - 1 | Message m \<Rightarrow> if msg_message m = WM_QUIT then 0 else 1)"

definition null_MSG :: MSG where
  "null_MSG = \<lparr>msg_hwnd = 0, msg_message = 0, msg_wParam = 0, msg_lParam = 0\<rparr>"

definition retrieved_MSG :: "retrieval \<Rightarrow> MSG" where
  "retrieved_MSG r = (case r of Failure \<Rightarrow> null_MSG | Message m \<Rightarrow> m)"

section \<open>Program state\<close>

text \<open>
  Calls into host code and releases of heap objects are recorded, in order, in a trace.
  Function pointers are opaque: calling one is an entry of the trace.
\<close>

datatype event =
  Invoke fptr addr
  | DeleteDispatch addr
  | InvokeClosed fptr addr
  | DeleteHandle addr
  | CallDestroyWindow HWND
  | CallCreateEvent
  | CallCompleted
  | CallCoWaitForMultipleHandles
  | CallCloseHandle

datatype loop_status = NotStarted | Running | Returned

record sys =
  MAIN_THREAD :: DWORD
  status :: loop_status
  queue :: "retrieval list"
  dispatches :: "addr \<rightharpoonup> Dispatch"
  handles :: "addr \<rightharpoonup> webview_struct"
  windows :: "HWND \<rightharpoonup> native_window"
  minmaxinfo :: "addr \<rightharpoonup> MINMAXINFO"
  trace :: "event list"

text \<open>
  Before \<open>webview_start\<close> runs: the static \<open>MAIN_THREAD\<close> is zero-initialised, and
  nothing has been allocated, created or posted.
\<close>

definition boot :: sys where
  "boot = \<lparr>MAIN_THREAD = 0, status = NotStarted, queue = [], dispatches = Map.empty,
            handles = Map.empty, windows = Map.empty, minmaxinfo = Map.empty, trace = []\<rparr>"

text \<open>
  What the platform answers when the program asks. During the wait inside \<open>block\<close> the
  platform runs its own message pump; a message without a window that this pump retrieves
  is either dropped (\<open>Discard\<close>) or left in the queue (\<open>Leave\<close>).
\<close>

datatype thread_message_policy = Discard | Leave

record platform =
  ui_thread :: DWORD
  GetClientRect :: "HWND \<Rightarrow> RECT"
  DefWindowProc :: "HWND \<Rightarrow> UINT \<Rightarrow> WPARAM \<Rightarrow> LPARAM \<Rightarrow> LRESULT"
  cowait_policy :: thread_message_policy

section \<open>The window procedure\<close>

definition getClientRect :: "platform \<Rightarrow> HWND \<Rightarrow> Rect" where
  "getClientRect env h =
     (let clientRect = GetClientRect env h in
      \<lparr>X = LONG_to_float (r_left clientRect),
       Y = LONG_to_float (r_top clientRect),
       Width = LONG_to_float (r_right clientRect - r_left clientRect),
       Height = LONG_to_float (r_bottom clientRect - r_top clientRect)\<rparr>)"

definition GetWindowLongPtr_USERDATA :: "sys \<Rightarrow> HWND \<Rightarrow> addr" where
  "GetWindowLongPtr_USERDATA s h = (case windows s h of None \<Rightarrow> 0 | Some w \<Rightarrow> userdata w)"

text \<open>The body of \<open>case WM_DESTROY\<close>, for the handle pointer \<open>window\<close>.\<close>

definition WndProc_WM_DESTROY :: "addr \<Rightarrow> sys \<Rightarrow> error + sys" where
  "WndProc_WM_DESTROY window s =
     (if window = 0 then Inl NullDereference
      else case handles s window of
        None \<Rightarrow> Inl DanglingPointer
      | Some h \<Rightarrow>
          if closed (opts h) = 0 then Inl NullCall
          else Inr (s\<lparr>trace := trace s @ [InvokeClosed (closed (opts h)) (data (opts h)),
                                            DeleteHandle window],
                      handles := (handles s)(window := None)\<rparr>))"

text \<open>
  \<open>DestroyWindow\<close> is the platform's: it sends \<open>WM_DESTROY\<close> to the window's
  procedure before it returns, and the window is gone afterwards.
\<close>

definition DestroyWindow :: "HWND \<Rightarrow> sys \<Rightarrow> error + sys" where
  "DestroyWindow h s =
     (case windows s h of
        None \<Rightarrow> Inr s
      | Some w \<Rightarrow>
          (case WndProc_WM_DESTROY (userdata w) (s\<lparr>trace := trace s @ [CallDestroyWindow h]\<rparr>) of
             Inl e \<Rightarrow> Inl e
           | Inr s' \<Rightarrow> Inr (s'\<lparr>windows := (windows s')(h := None)\<rparr>)))"

text \<open>
  \<open>WndProc\<close>. In \<open>case WM_GETMINMAXINFO\<close> the \<open>break\<close> is inside the \<open>if (window)\<close>,
  so with a null handle pointer control falls through to \<open>default\<close>.
\<close>

definition WndProc :: "platform \<Rightarrow> HWND \<Rightarrow> UINT \<Rightarrow> WPARAM \<Rightarrow> LPARAM \<Rightarrow> sys \<Rightarrow> error + LRESULT \<times> sys" where
  "WndProc env h msg wParam lParam s =
     (let window = GetWindowLongPtr_USERDATA s h in
      if msg = WM_CLOSE then
        (case DestroyWindow h s of Inl e \<Rightarrow> Inl e | Inr s' \<Rightarrow> Inr (0, s'))
      else if msg = WM_DESTROY then
        (case WndProc_WM_DESTROY window s of Inl e \<Rightarrow> Inl e | Inr s' \<Rightarrow> Inr (0, s'))
      else if msg = WM_SIZE then
        (if window = 0 then Inl NullDereference
         else case handles s window of
           None \<Rightarrow> Inl DanglingPointer
         | Some self \<Rightarrow>
             (case webview self of
                None \<Rightarrow> Inl NullDereference
              | Some c \<Rightarrow>
                  Inr (0, s\<lparr>handles := (handles s)(window \<mapsto>
                              self\<lparr>webview := Some (c\<lparr>Bounds := getClientRect env h\<rparr>)\<rparr>)\<rparr>)))
      else if msg = WM_GETMINMAXINFO \<and> window \<noteq> 0 then
        (case handles s window of
           None \<Rightarrow> Inl DanglingPointer
         | Some self \<Rightarrow>
             (case minmaxinfo s lParam of
                None \<Rightarrow> Inl InvalidPointer
              | Some lpMMI \<Rightarrow>
                  Inr (0, s\<lparr>minmaxinfo := (minmaxinfo s)(lParam \<mapsto>
                              lpMMI\<lparr>ptMinTrackSize :=
                                \<lparr>pt_x = ucast (minimum_width (opts self)),
                                 pt_y = ucast (minimum_height (opts self))\<rparr>\<rparr>)\<rparr>)))
      else Inr (DefWindowProc env h msg wParam lParam, s))"

text \<open>
  \<open>DispatchMessage\<close> hands a message to the procedure of its window. \<open>windows\<close> holds
  the windows of the program's own class, whose procedure is \<open>WndProc\<close>; a message for
  any other window does not reach the program.
\<close>

definition DispatchMessage :: "platform \<Rightarrow> MSG \<Rightarrow> sys \<Rightarrow> error + sys" where
  "DispatchMessage env msg s =
     (case windows s (msg_hwnd msg) of
        None \<Rightarrow> Inr s
      | Some w \<Rightarrow>
          (case WndProc env (msg_hwnd msg) (msg_message msg) (msg_wParam msg) (msg_lParam msg) s of
             Inl e \<Rightarrow> Inl e
           | Inr (r, s') \<Rightarrow> Inr s'))"

section \<open>Posting\<close>

text \<open>
  \<open>queue\<close> is the queue of the thread that runs \<open>webview_start\<close>. A message posted
  to any other thread identifier does not arrive there.
\<close>

definition PostThreadMessage :: "platform \<Rightarrow> DWORD \<Rightarrow> UINT \<Rightarrow> WPARAM \<Rightarrow> LPARAM \<Rightarrow> sys \<Rightarrow> sys" where
  "PostThreadMessage env idThread msg wParam lParam s =
     (if idThread = ui_thread env
      then s\<lparr>queue := queue s @ [Message \<lparr>msg_hwnd = 0, msg_message = msg,
                                            msg_wParam = wParam, msg_lParam = lParam\<rparr>]\<rparr>
      else s)"

text \<open>
  \<open>webview_dispatch\<close>; \<open>p\<close> is the address that \<open>new Dispatch\<close> returns. The call is
  atomic with respect to the queue, whichever thread makes it.
\<close>

definition webview_dispatch :: "platform \<Rightarrow> addr \<Rightarrow> addr \<Rightarrow> fptr \<Rightarrow> sys \<Rightarrow> sys" where
  "webview_dispatch env p dat fn s =
     PostThreadMessage env (MAIN_THREAD s) WM_APP_DISPATCH 0 p
       (s\<lparr>dispatches := (dispatches s)(p \<mapsto> \<lparr>data' = dat, func = fn\<rparr>)\<rparr>)"

text \<open>\<open>webview_exit\<close>, called on the UI thread: \<open>PostQuitMessage(0)\<close>.\<close>

definition webview_exit :: "sys \<Rightarrow> sys" where
  "webview_exit s =
     s\<lparr>queue := queue s @ [Message \<lparr>msg_hwnd = 0, msg_message = WM_QUIT,
                                         msg_wParam = 0, msg_lParam = 0\<rparr>]\<rparr>"

section \<open>The event loop\<close>

text \<open>
  \<open>GetMessage\<close> takes the head of the queue; on an empty queue it blocks (\<open>None\<close>).
\<close>

definition GetMessage :: "sys \<Rightarrow> (BOOL \<times> MSG \<times> sys) option" where
  "GetMessage s =
     (case queue s of
        [] \<Rightarrow> None
      | r # q \<Rightarrow> Some (GetMessage_result r, retrieved_MSG r, s\<lparr>queue := q\<rparr>))"

text \<open>
  One iteration of the \<open>while\<close> loop of \<open>webview_start\<close>: the retrieval, the two exits
  and the body. A blocked retrieval leaves the state as it is.
\<close>

definition loop_iteration :: "platform \<Rightarrow> sys \<Rightarrow> error + sys" where
  "loop_iteration env s =
     (case GetMessage s of
        None \<Rightarrow> Inr s
      | Some (res, msg, s1) \<Rightarrow>
          if res = 0 then Inr (s1\<lparr>status := Returned\<rparr>)
          else if res = - 1 then Inr (s1\<lparr>status := Returned\<rparr>)
          else if msg_hwnd msg \<noteq> 0 then DispatchMessage env msg s1
          else if msg_message msg = WM_APP_DISPATCH then
            (let dispatch = msg_lParam msg in
             if dispatch = 0 then Inl NullDereference
             else case dispatches s1 dispatch of
               None \<Rightarrow> Inl DanglingPointer
             | Some d \<Rightarrow>
                 if func d = 0 then Inl NullCall
                 else Inr (s1\<lparr>trace := trace s1 @ [Invoke (func d) (data' d), DeleteDispatch dispatch],
                              dispatches := (dispatches s1)(dispatch := None)\<rparr>))
          else Inr s1)"

text \<open>
  The loop, with fuel: the number of iterations the UI thread gets to make. Once the
  loop has been left, \<open>webview_start\<close> has returned and nothing more is retrieved.
\<close>

fun message_loop :: "platform \<Rightarrow> nat \<Rightarrow> sys \<Rightarrow> error + sys" where
  "message_loop env 0 s = Inr s"
| "message_loop env (Suc n) s =
     (if status s \<noteq> Running then Inr s
      else case loop_iteration env s of
        Inl e \<Rightarrow> Inl e
      | Inr s' \<Rightarrow> message_loop env n s')"

text \<open>
  \<open>webview_start\<close>: the thread identifier is stored, the entry callback \<open>fn\<close> runs
  (a state transformer), then the loop. The initialisation of the apartment, the control
  factory and the registration of the window class touch nothing that is modelled here.
\<close>

definition webview_start :: "platform \<Rightarrow> (sys \<Rightarrow> error + sys) \<Rightarrow> nat \<Rightarrow> sys \<Rightarrow> error + sys" where
  "webview_start env fn fuel s =
     (case fn (s\<lparr>MAIN_THREAD := ui_thread env, status := Running\<rparr>) of
        Inl e \<Rightarrow> Inl e
      | Inr s1 \<Rightarrow> message_loop env fuel s1)"

section \<open>The blocking bridge\<close>

datatype AsyncStatus = Started | Completed | Canceled | Error

record 'r IAsyncOperation =
  Status :: AsyncStatus
  Results :: 'r

definition GetResults :: "'r IAsyncOperation \<Rightarrow> error + 'r" where
  "GetResults async = (if Status async = Completed then Inr (Results async) else Inl IllegalMethodCall)"

text \<open>
  What happens while \<open>CoWaitForMultipleHandles\<close> waits, one atomic action at a time: a
  thread calls \<open>webview_dispatch\<close>; the platform puts an entry into the queue; the
  wait's own pump handles a queued message; the operation finishes, and the completion
  handler sets the event.
\<close>

datatype 'r wait_action =
  WPost addr addr fptr
  | WArrive retrieval
  | WPump
  | WComplete "'r IAsyncOperation"

definition is_window_message :: "retrieval \<Rightarrow> bool" where
  "is_window_message r = (case r of Failure \<Rightarrow> False | Message m \<Rightarrow> msg_hwnd m \<noteq> 0)"

text \<open>
  One cycle of the pump inside the wait. It is the platform's code: a window message
  goes to the window's procedure through \<open>DispatchMessage\<close>; an entry without a window
  is treated according to the policy. The program's handling of \<open>WM_APP_DISPATCH\<close> is
  in the loop of \<open>webview_start\<close>, which does not run here.
\<close>

definition cowait_pump :: "platform \<Rightarrow> sys \<Rightarrow> error + sys" where
  "cowait_pump env s =
     (case cowait_policy env of
        Discard \<Rightarrow>
          (case queue s of
             [] \<Rightarrow> Inr s
           | r # q \<Rightarrow>
               if is_window_message r then DispatchMessage env (retrieved_MSG r) (s\<lparr>queue := q\<rparr>)
               else Inr (s\<lparr>queue := q\<rparr>))
      | Leave \<Rightarrow>
          (case dropWhile (\<lambda>r. \<not> is_window_message r) (queue s) of
             [] \<Rightarrow> Inr s
           | r # q \<Rightarrow>
               DispatchMessage env (retrieved_MSG r)
                 (s\<lparr>queue := takeWhile (\<lambda>r. \<not> is_window_message r) (queue s) @ q\<rparr>)))"

text \<open>
  The wait with an infinite timeout: it ends when the event is set and not before. The
  result \<open>None\<close> says that the wait has not ended within the given actions.
\<close>

fun CoWaitForMultipleHandles ::
  "platform \<Rightarrow> 'r wait_action list \<Rightarrow> sys \<Rightarrow> error + ('r IAsyncOperation option \<times> sys)" where
  "CoWaitForMultipleHandles env [] s = Inr (None, s)"
| "CoWaitForMultipleHandles env (WComplete done # as) s = Inr (Some done, s)"
| "CoWaitForMultipleHandles env (WPost p dat fn # as) s =
     CoWaitForMultipleHandles env as (webview_dispatch env p dat fn s)"
| "CoWaitForMultipleHandles env (WArrive r # as) s =
     CoWaitForMultipleHandles env as (s\<lparr>queue := queue s @ [r]\<rparr>)"
| "CoWaitForMultipleHandles env (WPump # as) s =
     (case cowait_pump env s of
        Inl e \<Rightarrow> Inl e
      | Inr s' \<Rightarrow> CoWaitForMultipleHandles env as s')"

text \<open>
  \<open>block\<close>. An operation that has already ended without completing (\<open>Canceled\<close>,
  \<open>Error\<close>) runs the completion handler as soon as it is registered, so the wait ends
  at once.
\<close>

definition block ::
  "platform \<Rightarrow> 'r IAsyncOperation \<Rightarrow> 'r wait_action list \<Rightarrow> sys \<Rightarrow> error + ('r option \<times> sys)" where
  "block env async as s =
     (if Status async \<noteq> Completed then
        (let s1 = s\<lparr>trace := trace s @ [CallCreateEvent, CallCompleted, CallCoWaitForMultipleHandles]\<rparr> in
         case (if Status async \<noteq> Started then Inr (Some async, s1)
               else CoWaitForMultipleHandles env as s1) of
           Inl e \<Rightarrow> Inl e
         | Inr (None, s2) \<Rightarrow> Inr (None, s2)
         | Inr (Some done, s2) \<Rightarrow>
             (case GetResults done of
                Inl e \<Rightarrow> Inl e
              | Inr v \<Rightarrow> Inr (Some v, s2\<lparr>trace := trace s2 @ [CallCloseHandle]\<rparr>)))
      else
        (case GetResults async of
           Inl e \<Rightarrow> Inl e
         | Inr v \<Rightarrow> Inr (Some v, s)))"

section \<open>Threads, waits and the loop, interleaved\<close>

text \<open>
  What happens around the loop, one atomic action at a time: some thread calls
  \<open>webview_dispatch\<close>; code on the UI thread calls \<open>webview_exit\<close>; the platform puts
  an entry into the queue; the loop makes its next iteration; code on the UI thread
  calls \<open>block\<close>, and the wait inside it sees the given wait actions, among them the
  posts of other threads during the wait.
\<close>

datatype 'r action =
  Post addr addr fptr
  | Exit
  | Arrive retrieval
  | Iterate
  | Block "'r IAsyncOperation" "'r wait_action list"

definition step :: "platform \<Rightarrow> 'r action \<Rightarrow> sys \<Rightarrow> error + sys" where
  "step env a s =
     (case a of
        Post p dat fn \<Rightarrow> Inr (webview_dispatch env p dat fn s)
      | Exit \<Rightarrow> Inr (webview_exit s)
      | Arrive r \<Rightarrow> Inr (s\<lparr>queue := queue s @ [r]\<rparr>)
      | Iterate \<Rightarrow> message_loop env 1 s
      | Block async was \<Rightarrow>
          (case block env async was s of Inl e \<Rightarrow> Inl e | Inr (res, s') \<Rightarrow> Inr s'))"

fun run :: "platform \<Rightarrow> 'r action list \<Rightarrow> sys \<Rightarrow> error + sys" where
  "run env [] s = Inr s"
| "run env (a # as) s = (case step env a s of Inl e \<Rightarrow> Inl e | Inr s' \<Rightarrow> run env as s')"










fun execution :: "addr \<times> addr \<times> fptr \<Rightarrow> event list" where
  "execution (p, dat, fn) = [Invoke fn dat, DeleteDispatch p]"

definition executions :: "(addr \<times> addr \<times> fptr) list \<Rightarrow> event list" where
  "executions items = concat (map execution items)"

fun is_dispatch_event :: "event \<Rightarrow> bool" where
  "is_dispatch_event (Invoke fn dat) = True"
| "is_dispatch_event (DeleteDispatch p) = True"
| "is_dispatch_event e = False"

definition executed :: "sys \<Rightarrow> event list" where
  "executed s = filter is_dispatch_event (trace s)"

definition is_exit :: "retrieval \<Rightarrow> bool" where
  "is_exit r = (GetMessage_result r = 0 \<or> GetMessage_result r = - 1)"






section \<open>Concrete values\<close>

text \<open>A monitor of 1920 by 1080, an overlapped window of 800 by 600 and two controls.\<close>

definition example_monitor :: "native_window \<Rightarrow> RECT" where
  "example_monitor w = \<lparr>r_left = 0, r_top = 0, r_right = 1920, r_bottom = 1080\<rparr>"

definition example_window :: native_window where
  "example_window =
     \<lparr>wrect = \<lparr>r_left = 100, r_top = 100, r_right = 900, r_bottom = 700\<rparr>,
      wstyle = 0x00CF0000, userdata = 0x1000, history = []\<rparr>"

definition present_sender :: WebViewControl where
  "present_sender =
     \<lparr>Bounds = \<lparr>X = 0, Y = 0, Width = 784, Height = 561\<rparr>, ContainsFullScreenElement = True\<rparr>"

definition absent_sender :: WebViewControl where
  "absent_sender =
     \<lparr>Bounds = \<lparr>X = 0, Y = 0, Width = 784, Height = 561\<rparr>, ContainsFullScreenElement = False\<rparr>"

text \<open>The closure and the window after the first enter transition of the example.\<close>

definition entered_closure :: closure where
  "entered_closure =
     \<lparr>saved_fullscreen = True,
      saved_rect = Some \<lparr>r_left = 100, r_top = 100, r_right = 900, r_bottom = 700\<rparr>,
      saved_style = 0x00CF0000\<rparr>"

definition entered_window :: native_window where
  "entered_window =
     \<lparr>wrect = \<lparr>r_left = 0, r_top = 0, r_right = 1920, r_bottom = 1080\<rparr>,
      wstyle = 0x000B0000, userdata = 0x1000,
      history = [CallSetWindowLong 0x000B0000, CallSetWindowPos 0 0 1920 1080]\<rparr>"

text \<open>
  A running program with one handle at address \<open>0x1000\<close>, attached to the window
  \<open>0x2000\<close>, and a \<open>MINMAXINFO\<close> structure at \<open>0x3000\<close>.
\<close>

definition example_options :: webview_options where
  "example_options =
     \<lparr>initial_width = 800, initial_height = 600, minimum_width = 400, minimum_height = 300,
      borderless = False, debug = False, data = 0x5000, message = 0x6000, closed = 0x7000\<rparr>"

definition example_MINMAXINFO :: MINMAXINFO where
  "example_MINMAXINFO =
     \<lparr>ptReserved = \<lparr>pt_x = 0, pt_y = 0\<rparr>,
      ptMaxSize = \<lparr>pt_x = 1936, pt_y = 1096\<rparr>,
      ptMaxPosition = \<lparr>pt_x = - 8, pt_y = - 8\<rparr>,
      ptMinTrackSize = \<lparr>pt_x = 136, pt_y = 39\<rparr>,
      ptMaxTrackSize = \<lparr>pt_x = 1940, pt_y = 1100\<rparr>\<rparr>"

definition example_handle :: "webview_options \<Rightarrow> webview_struct" where
  "example_handle options = \<lparr>hwnd = 0x2000, webview = Some absent_sender, opts = options\<rparr>"

definition example_sys :: "webview_options \<Rightarrow> sys" where
  "example_sys options =
     \<lparr>MAIN_THREAD = 1, status = Running, queue = [], dispatches = Map.empty,
      handles = [0x1000 \<mapsto> example_handle options],
      windows = [0x2000 \<mapsto> example_window],
      minmaxinfo = [0x3000 \<mapsto> example_MINMAXINFO],
      trace = []\<rparr>"

definition example_client :: "HWND \<Rightarrow> RECT" where
  "example_client h = \<lparr>r_left = 0, r_top = 0, r_right = 784, r_bottom = 561\<rparr>"

definition example_DefWindowProc :: "HWND \<Rightarrow> UINT \<Rightarrow> WPARAM \<Rightarrow> LPARAM \<Rightarrow> LRESULT" where
  "example_DefWindowProc h msg wParam lParam = 0"

definition example_platform :: "thread_message_policy \<Rightarrow> platform" where
  "example_platform policy =
     \<lparr>ui_thread = 1, GetClientRect = example_client, DefWindowProc = example_DefWindowProc,
      cowait_policy = policy\<rparr>"

section \<open>Facts\<close>

lemmas wm_defs =
  WM_DESTROY_def WM_SIZE_def WM_CLOSE_def WM_QUIT_def WM_GETMINMAXINFO_def
  WM_APP_def WM_APP_DISPATCH_def

subsection \<open>The fullscreen handler\<close>

lemma handler_early_return:
  "ContainsFullScreenElement sender = saved_fullscreen c \<Longrightarrow>
   fullscreen_handler m sender (c, w) = Inr (c, w)"
  by (simp add: fullscreen_handler_def)

lemma handler_enter:
  "ContainsFullScreenElement sender \<Longrightarrow> \<not> saved_fullscreen c \<Longrightarrow>
   fullscreen_handler m sender (c, w) =
     Inr (c\<lparr>saved_fullscreen := True, saved_rect := Some (wrect w), saved_style := wstyle w\<rparr>,
      (let w1 = SetWindowLong_STYLE (wstyle w AND NOT (WS_CAPTION OR WS_THICKFRAME)) w; sr = m w1 in
        SetWindowPos (r_left sr) (r_top sr) (r_right sr - r_left sr) (r_bottom sr - r_top sr) w1))"
  by (simp add: fullscreen_handler_def Let_def GetWindowRect_def GetWindowLong_STYLE_def)

lemma handler_restore:
  "\<not> ContainsFullScreenElement sender \<Longrightarrow> saved_fullscreen c \<Longrightarrow> saved_rect c = Some r \<Longrightarrow>
   fullscreen_handler m sender (c, w) =
     Inr (c\<lparr>saved_fullscreen := False\<rparr>,
       SetWindowPos (r_left r) (r_top r) (r_right r - r_left r) (r_bottom r - r_top r)
         (SetWindowLong_STYLE (saved_style c) w))"
  by (simp add: fullscreen_handler_def Let_def)

lemma mutations_SetWindowLong:
  "style_mutations (SetWindowLong_STYLE v w) = style_mutations w + 1"
  "rect_mutations (SetWindowLong_STYLE v w) = rect_mutations w"
  by (simp_all add: style_mutations_def rect_mutations_def SetWindowLong_STYLE_def)

lemma mutations_SetWindowPos:
  "style_mutations (SetWindowPos x y cx cy w) = style_mutations w"
  "rect_mutations (SetWindowPos x y cx cy w) = rect_mutations w + 1"
  by (simp_all add: style_mutations_def rect_mutations_def SetWindowPos_def)

lemma example_enter:
  "fullscreen_handler example_monitor present_sender (initial_closure, example_window)
     = Inr (entered_closure, entered_window)"
  by (simp add: fullscreen_handler_def Let_def GetWindowRect_def GetWindowLong_STYLE_def
      SetWindowLong_STYLE_def SetWindowPos_def initial_closure_def example_window_def
      example_monitor_def present_sender_def entered_closure_def entered_window_def
      WS_CAPTION_def WS_THICKFRAME_def)

text \<open>
  Claim C4, as stated, at a handle that is already fullscreen. The first notification
  of the example takes the window into fullscreen; the two notifications that follow
  both find the cached flag true, and together they leave the window with the style
  and rectangle mutations it had: none is added, where the claim says exactly one.
\<close>

theorem C4_already_fullscreen_counterexample:
  "fullscreen_handler example_monitor present_sender (initial_closure, example_window)
     = Inr (entered_closure, entered_window)
   \<and> notifications example_monitor [present_sender, present_sender] (entered_closure, entered_window)
     = Inr (entered_closure, entered_window)
   \<and> style_mutations entered_window \<noteq> style_mutations entered_window + 1
   \<and> rect_mutations entered_window \<noteq> rect_mutations entered_window + 1"
proof -
  have k: "ContainsFullScreenElement present_sender = saved_fullscreen entered_closure"
    by (simp add: entered_closure_def present_sender_def)
  have n: "notifications example_monitor [present_sender, present_sender] (entered_closure, entered_window)
     = Inr (entered_closure, entered_window)"
    by (simp add: handler_early_return [OF k])
  from example_enter n show ?thesis by simp
qed

text \<open>
  Claim C4, amended. Of two consecutive fullscreen-element-present notifications the
  second changes nothing, in any state: the closure and the window, with its style,
  rectangle and call history, are what the first left. When the cached flag was false
  before the first, the two together make exactly one style mutation and one rectangle
  mutation; when it was already true, neither notification changes anything.
\<close>

theorem C4_duplicate_present_is_noop:
  assumes "ContainsFullScreenElement sender" "ContainsFullScreenElement sender'"
  shows "\<exists>c1 w1. fullscreen_handler m sender (c, w) = Inr (c1, w1)
           \<and> fullscreen_handler m sender' (c1, w1) = Inr (c1, w1)
           \<and> notifications m [sender, sender'] (c, w) = Inr (c1, w1)
           \<and> (\<not> saved_fullscreen c \<longrightarrow>
                style_mutations w1 = style_mutations w + 1 \<and> rect_mutations w1 = rect_mutations w + 1)
           \<and> (saved_fullscreen c \<longrightarrow> c1 = c \<and> w1 = w)"
proof (cases "saved_fullscreen c")
  case True
  with assms show ?thesis by (simp add: handler_early_return)
next
  case False
  with assms show ?thesis
    by (simp add: handler_enter handler_early_return Let_def mutations_SetWindowLong mutations_SetWindowPos)
qed

theorem C4_duplicate_present_is_noop_witness:
  "ContainsFullScreenElement present_sender
   \<and> \<not> saved_fullscreen initial_closure
   \<and> (\<exists>c1 w1. fullscreen_handler example_monitor present_sender (initial_closure, example_window) = Inr (c1, w1)
           \<and> fullscreen_handler example_monitor present_sender (c1, w1) = Inr (c1, w1)
           \<and> notifications example_monitor [present_sender, present_sender] (initial_closure, example_window) = Inr (c1, w1)
           \<and> style_mutations w1 = style_mutations example_window + 1
           \<and> rect_mutations w1 = rect_mutations example_window + 1)"
proof -
  have p: "ContainsFullScreenElement present_sender" by (simp add: present_sender_def)
  have i: "\<not> saved_fullscreen initial_closure" by (simp add: initial_closure_def)
  show ?thesis
    using p i C4_duplicate_present_is_noop [OF p p, of example_monitor initial_closure example_window]
    by auto
qed

text \<open>
  Claim C5. With the cached flag false, a fullscreen-element-present notification
  followed by a no-fullscreen-element notification is handled without fault and leaves
  the window rectangle and the window style equal, bit for bit, to what they were
  before the first, and the cached flag false again.
\<close>

theorem C5_enter_exit_roundtrip:
  assumes "\<not> saved_fullscreen c" "ContainsFullScreenElement present" "\<not> ContainsFullScreenElement absent"
  shows "\<exists>c' w'. notifications m [present, absent] (c, w) = Inr (c', w')
           \<and> wrect w' = wrect w \<and> wstyle w' = wstyle w \<and> \<not> saved_fullscreen c'"
  using assms
  by (simp add: handler_enter handler_restore Let_def)
     (simp add: SetWindowPos_def SetWindowLong_STYLE_def)

theorem C5_enter_exit_roundtrip_witness:
  "\<not> saved_fullscreen initial_closure \<and> ContainsFullScreenElement present_sender
   \<and> \<not> ContainsFullScreenElement absent_sender
   \<and> (\<exists>c' w'. notifications example_monitor [present_sender, absent_sender] (initial_closure, example_window) = Inr (c', w')
           \<and> wrect w' = \<lparr>r_left = 100, r_top = 100, r_right = 900, r_bottom = 700\<rparr>
           \<and> wstyle w' = 0x00CF0000 \<and> \<not> saved_fullscreen c')"
proof -
  have i: "\<not> saved_fullscreen initial_closure" by (simp add: initial_closure_def)
  have p: "ContainsFullScreenElement present_sender" by (simp add: present_sender_def)
  have a: "\<not> ContainsFullScreenElement absent_sender" by (simp add: absent_sender_def)
  show ?thesis
    using i p a C5_enter_exit_roundtrip [OF i p a, of example_monitor example_window]
    by (simp add: example_window_def)
qed

lemma notifications_all_absent:
  "\<forall>s\<in>set ss. \<not> ContainsFullScreenElement s \<Longrightarrow> \<not> saved_fullscreen c \<Longrightarrow>
   notifications m ss (c, w) = Inr (c, w)"
  by (induction ss) (simp_all add: handler_early_return)

lemma saved_fromI:
  assumes "history w = history w0 @ hs"
    and "saved_fullscreen c \<longrightarrow> saved_rect c = Some (wrect w0) \<and> saved_style c = wstyle w0"
    and "\<not> saved_fullscreen c \<longrightarrow> wrect w = wrect w0 \<and> wstyle w = wstyle w0"
    and "\<forall>v. CallSetWindowLong v \<in> set hs \<longrightarrow>
           v = wstyle w0 \<or> v = wstyle w0 AND NOT (WS_CAPTION OR WS_THICKFRAME)"
    and "hs = [] \<longrightarrow> \<not> saved_fullscreen c"
    and "hs \<noteq> [] \<longrightarrow>
           hd hs = CallSetWindowLong (wstyle w0 AND NOT (WS_CAPTION OR WS_THICKFRAME))"
  shows "saved_from w0 (c, w)"
  using assms unfolding saved_from_def by auto

lemma handler_saved_from:
  assumes "saved_from w0 (c, w1)"
  shows "\<exists>c' w'. fullscreen_handler m sender (c, w1) = Inr (c', w') \<and> saved_from w0 (c', w')"
proof -
  let ?stripped = "wstyle w0 AND NOT (WS_CAPTION OR WS_THICKFRAME)"
  from assms obtain hs where h: "history w1 = history w0 @ hs"
    and t: "saved_fullscreen c \<longrightarrow> saved_rect c = Some (wrect w0) \<and> saved_style c = wstyle w0"
    and f: "\<not> saved_fullscreen c \<longrightarrow> wrect w1 = wrect w0 \<and> wstyle w1 = wstyle w0"
    and a: "\<forall>v. CallSetWindowLong v \<in> set hs \<longrightarrow> v = wstyle w0 \<or> v = ?stripped"
    and e: "hs = [] \<longrightarrow> \<not> saved_fullscreen c"
    and d: "hs \<noteq> [] \<longrightarrow> hd hs = CallSetWindowLong ?stripped"
    unfolding saved_from_def by auto
  show ?thesis
  proof (cases "ContainsFullScreenElement sender = saved_fullscreen c")
    case True
    with assms show ?thesis by (simp add: handler_early_return)
  next
    case False
    show ?thesis
    proof (cases "ContainsFullScreenElement sender")
      case True
      with False have nf: "\<not> saved_fullscreen c" by simp
      let ?w1 = "SetWindowLong_STYLE (wstyle w1 AND NOT (WS_CAPTION OR WS_THICKFRAME)) w1"
      let ?sr = "m ?w1"
      let ?w' = "SetWindowPos (r_left ?sr) (r_top ?sr) (r_right ?sr - r_left ?sr)
                   (r_bottom ?sr - r_top ?sr) ?w1"
      let ?c' = "c\<lparr>saved_fullscreen := True, saved_rect := Some (wrect w1), saved_style := wstyle w1\<rparr>"
      have r: "fullscreen_handler m sender (c, w1) = Inr (?c', ?w')"
        using True nf by (simp add: handler_enter Let_def)
      from nf f have same: "wrect w1 = wrect w0" "wstyle w1 = wstyle w0" by simp_all
      have hist: "history ?w' = history w0 @ (hs @ [CallSetWindowLong ?stripped,
                    CallSetWindowPos (r_left ?sr) (r_top ?sr) (r_right ?sr - r_left ?sr)
                      (r_bottom ?sr - r_top ?sr)])"
        by (simp add: SetWindowPos_def SetWindowLong_STYLE_def h same)
      have "saved_from w0 (?c', ?w')"
        using a d same by (intro saved_fromI [OF hist]) (auto simp: hd_append)
      with r show ?thesis by blast
    next
      case absent: False
      with False have fl: "saved_fullscreen c" by simp
      with t have sr: "saved_rect c = Some (wrect w0)" and ss: "saved_style c = wstyle w0"
        by simp_all
      from fl e have ne: "hs \<noteq> []" by blast
      let ?r = "wrect w0"
      let ?w' = "SetWindowPos (r_left ?r) (r_top ?r) (r_right ?r - r_left ?r) (r_bottom ?r - r_top ?r)
                   (SetWindowLong_STYLE (saved_style c) w1)"
      let ?c' = "c\<lparr>saved_fullscreen := False\<rparr>"
      have r: "fullscreen_handler m sender (c, w1) = Inr (?c', ?w')"
        using absent fl sr by (simp add: handler_restore)
      have hist: "history ?w' = history w0 @ (hs @ [CallSetWindowLong (wstyle w0),
                    CallSetWindowPos (r_left ?r) (r_top ?r) (r_right ?r - r_left ?r)
                      (r_bottom ?r - r_top ?r)])"
        by (simp add: SetWindowPos_def SetWindowLong_STYLE_def h ss)
      have rect: "wrect ?w' = wrect w0" "wstyle ?w' = wstyle w0"
        by (simp_all add: SetWindowPos_def SetWindowLong_STYLE_def ss)
      have "saved_from w0 (?c', ?w')"
        using a d ne rect by (intro saved_fromI [OF hist]) (auto simp: hd_append)
      with r show ?thesis by blast
    qed
  qed
qed

lemma notifications_saved_from:
  "saved_from w0 (c, w1) \<Longrightarrow>
   \<exists>c' w'. notifications m ss (c, w1) = Inr (c', w') \<and> saved_from w0 (c', w')"
proof (induction ss arbitrary: c w1)
  case Nil
  then show ?case by simp
next
  case (Cons sender ss)
  from handler_saved_from [OF Cons.prems, of m sender]
  obtain c1 w2 where h: "fullscreen_handler m sender (c, w1) = Inr (c1, w2)"
    and k: "saved_from w0 (c1, w2)" by blast
  from Cons.IH [OF k] h show ?case by simp
qed

lemma saved_from_initial: "saved_from w (initial_closure, w)"
  by (simp add: saved_from_def initial_closure_def)

text \<open>
  Claim C10. A no-fullscreen-element notification that finds the cached flag false
  returns early: closure and window stay as they are. From the initial sub-state, as
  long as no fullscreen-element-present notification has come, any number of
  notifications leaves the window untouched, so the restore branch has not run. And
  whatever notifications come, none is handled by reading the unwritten rectangle (the
  result is never a fault); whenever the flag is true, the saved rectangle and the
  saved style are the rectangle and the style the window had at the start, written by
  an enter; whenever it is false, the window has that rectangle and that style. The
  first mutation ever applied is the style write of an enter, and the only styles ever
  applied are the window's own style without the caption and frame bits (by an enter)
  and the window's own style (by a restore): the sentinel is never applied.
\<close>

theorem C10_restore_needs_enter:
  "(\<not> ContainsFullScreenElement sender \<longrightarrow> \<not> saved_fullscreen c \<longrightarrow>
      fullscreen_handler m sender (c, w) = Inr (c, w))
   \<and> ((\<forall>s\<in>set ss. \<not> ContainsFullScreenElement s) \<longrightarrow>
      notifications m ss (initial_closure, w) = Inr (initial_closure, w))
   \<and> (\<exists>c' w' hs. notifications m ss (initial_closure, w) = Inr (c', w')
        \<and> history w' = history w @ hs
        \<and> (saved_fullscreen c' \<longrightarrow>
             saved_rect c' = Some (wrect w) \<and> saved_style c' = wstyle w)
        \<and> (\<not> saved_fullscreen c' \<longrightarrow> wrect w' = wrect w \<and> wstyle w' = wstyle w)
        \<and> (\<forall>v. CallSetWindowLong v \<in> set hs \<longrightarrow>
             v = wstyle w \<or> v = wstyle w AND NOT (WS_CAPTION OR WS_THICKFRAME))
        \<and> (hs = [] \<longrightarrow> \<not> saved_fullscreen c')
        \<and> (hs \<noteq> [] \<longrightarrow>
             hd hs = CallSetWindowLong (wstyle w AND NOT (WS_CAPTION OR WS_THICKFRAME))))"
proof -
  have i: "\<not> saved_fullscreen initial_closure" by (simp add: initial_closure_def)
  have a: "\<not> ContainsFullScreenElement sender \<longrightarrow> \<not> saved_fullscreen c \<longrightarrow>
      fullscreen_handler m sender (c, w) = Inr (c, w)"
    by (simp add: handler_early_return)
  have b: "(\<forall>s\<in>set ss. \<not> ContainsFullScreenElement s) \<longrightarrow>
      notifications m ss (initial_closure, w) = Inr (initial_closure, w)"
    using notifications_all_absent [OF _ i] by blast
  from notifications_saved_from [OF saved_from_initial, of m ss w]
  obtain c' w' where n: "notifications m ss (initial_closure, w) = Inr (c', w')"
    and s: "saved_from w (c', w')" by blast
  from s obtain hs where "history w' = history w @ hs"
    "saved_fullscreen c' \<longrightarrow> saved_rect c' = Some (wrect w) \<and> saved_style c' = wstyle w"
    "\<not> saved_fullscreen c' \<longrightarrow> wrect w' = wrect w \<and> wstyle w' = wstyle w"
    "\<forall>v. CallSetWindowLong v \<in> set hs \<longrightarrow>
             v = wstyle w \<or> v = wstyle w AND NOT (WS_CAPTION OR WS_THICKFRAME)"
    "hs = [] \<longrightarrow> \<not> saved_fullscreen c'"
    "hs \<noteq> [] \<longrightarrow> hd hs = CallSetWindowLong (wstyle w AND NOT (WS_CAPTION OR WS_THICKFRAME))"
    unfolding saved_from_def by auto
  with n have "\<exists>c' w' hs. notifications m ss (initial_closure, w) = Inr (c', w')
        \<and> history w' = history w @ hs
        \<and> (saved_fullscreen c' \<longrightarrow>
             saved_rect c' = Some (wrect w) \<and> saved_style c' = wstyle w)
        \<and> (\<not> saved_fullscreen c' \<longrightarrow> wrect w' = wrect w \<and> wstyle w' = wstyle w)
        \<and> (\<forall>v. CallSetWindowLong v \<in> set hs \<longrightarrow>
             v = wstyle w \<or> v = wstyle w AND NOT (WS_CAPTION OR WS_THICKFRAME))
        \<and> (hs = [] \<longrightarrow> \<not> saved_fullscreen c')
        \<and> (hs \<noteq> [] \<longrightarrow>
             hd hs = CallSetWindowLong (wstyle w AND NOT (WS_CAPTION OR WS_THICKFRAME)))"
    by blast
  with a b show ?thesis by blast
qed

theorem C10_restore_needs_enter_witness:
  "\<not> ContainsFullScreenElement absent_sender \<and> \<not> saved_fullscreen initial_closure
   \<and> fullscreen_handler example_monitor absent_sender (initial_closure, example_window)
       = Inr (initial_closure, example_window)
   \<and> notifications example_monitor [absent_sender, absent_sender] (initial_closure, example_window)
       = Inr (initial_closure, example_window)
   \<and> (\<exists>c' w'. notifications example_monitor [present_sender, absent_sender]
                 (initial_closure, example_window) = Inr (c', w')
         \<and> \<not> saved_fullscreen c' \<and> wstyle w' = 0x00CF0000
         \<and> history w' = [CallSetWindowLong 0x000B0000, CallSetWindowPos 0 0 1920 1080,
                          CallSetWindowLong 0x00CF0000, CallSetWindowPos 100 100 800 600])"
proof -
  have 1: "\<not> ContainsFullScreenElement absent_sender \<and> \<not> saved_fullscreen initial_closure
   \<and> fullscreen_handler example_monitor absent_sender (initial_closure, example_window)
       = Inr (initial_closure, example_window)
   \<and> notifications example_monitor [absent_sender, absent_sender] (initial_closure, example_window)
       = Inr (initial_closure, example_window)"
    using C10_restore_needs_enter [of absent_sender initial_closure example_monitor example_window
      "[absent_sender, absent_sender]"]
    by (simp add: absent_sender_def initial_closure_def)
  have 2: "\<exists>c' w'. notifications example_monitor [present_sender, absent_sender]
                 (initial_closure, example_window) = Inr (c', w')
         \<and> \<not> saved_fullscreen c' \<and> wstyle w' = 0x00CF0000
         \<and> history w' = [CallSetWindowLong 0x000B0000, CallSetWindowPos 0 0 1920 1080,
                          CallSetWindowLong 0x00CF0000, CallSetWindowPos 100 100 800 600]"
    by (simp add: example_enter)
       (simp add: fullscreen_handler_def Let_def SetWindowLong_STYLE_def SetWindowPos_def
          absent_sender_def entered_closure_def entered_window_def)
  from 1 2 show ?thesis by blast
qed

subsection \<open>The window procedure\<close>

lemma round_to_float_exact:
  assumes "\<bar>v\<bar> \<le> 2 ^ 24"
  shows "round_to_float v = v"
proof (cases "\<bar>v\<bar> = 2 ^ 24")
  case True
  then have a: "nat \<bar>v\<bar> = 16777216" by simp
  from True have "sgn v * 16777216 = v" by (auto simp: sgn_if abs_if split: if_splits)
  then show ?thesis
    by (simp add: round_to_float_def Let_def a dropped_bits_def)
next
  case False
  with assms have "nat \<bar>v\<bar> < 2 ^ 24" by simp
  then have b: "dropped_bits (nat \<bar>v\<bar>) = 0" by (simp add: dropped_bits_def)
  have "sgn v * \<bar>v\<bar> = v" by (simp add: sgn_if abs_if)
  then show ?thesis by (simp add: round_to_float_def Let_def b)
qed

lemma LONG_to_float_exact:
  "0 \<le> sint x \<Longrightarrow> sint x \<le> 2 ^ 24 \<Longrightarrow> LONG_to_float x = sint x"
  by (simp add: LONG_to_float_def round_to_float_exact)

lemma LONG_to_float_0: "LONG_to_float 0 = 0"
  by (simp add: LONG_to_float_exact)

lemma WndProc_WM_SIZE:
  "windows s h = Some w \<Longrightarrow> userdata w \<noteq> 0 \<Longrightarrow> handles s (userdata w) = Some self \<Longrightarrow>
   webview self = Some c \<Longrightarrow>
   WndProc env h WM_SIZE wParam lParam s =
     Inr (0, s\<lparr>handles := (handles s)(userdata w \<mapsto>
            self\<lparr>webview := Some (c\<lparr>Bounds := getClientRect env h\<rparr>)\<rparr>)\<rparr>)"
  by (simp add: WndProc_def GetWindowLongPtr_USERDATA_def Let_def wm_defs)

lemma WndProc_WM_GETMINMAXINFO:
  "windows s h = Some w \<Longrightarrow> userdata w \<noteq> 0 \<Longrightarrow> handles s (userdata w) = Some self \<Longrightarrow>
   minmaxinfo s lParam = Some lpMMI \<Longrightarrow>
   WndProc env h WM_GETMINMAXINFO wParam lParam s =
     Inr (0, s\<lparr>minmaxinfo := (minmaxinfo s)(lParam \<mapsto>
            lpMMI\<lparr>ptMinTrackSize :=
              \<lparr>pt_x = ucast (minimum_width (opts self)),
               pt_y = ucast (minimum_height (opts self))\<rparr>\<rparr>)\<rparr>)"
  by (simp add: WndProc_def GetWindowLongPtr_USERDATA_def Let_def wm_defs)

lemma WndProc_WM_DESTROY_attached:
  "windows s h = Some w \<Longrightarrow> userdata w \<noteq> 0 \<Longrightarrow> handles s (userdata w) = Some self \<Longrightarrow>
   closed (opts self) \<noteq> 0 \<Longrightarrow>
   WndProc env h WM_DESTROY wParam lParam s =
     Inr (0, s\<lparr>trace := trace s @ [InvokeClosed (closed (opts self)) (data (opts self)),
                                    DeleteHandle (userdata w)],
              handles := (handles s)(userdata w := None)\<rparr>)"
  by (simp add: WndProc_def WndProc_WM_DESTROY_def GetWindowLongPtr_USERDATA_def Let_def wm_defs)

lemma ucast_size_t_LONG:
  fixes n :: size_t
  assumes "uint n < 2 ^ 31"
  shows "sint (ucast n :: LONG) = uint n"
proof -
  have "sint (ucast n :: LONG) = signed_take_bit 31 (uint n)"
    by (simp add: signed_ucast_eq)
  also have "\<dots> = uint n"
  proof (rule signed_take_bit_int_eq_self)
    have "- (2 ^ 31) \<le> (0::int)" by simp
    also have "0 \<le> uint n" by simp
    finally show "- (2 ^ 31) \<le> uint n" .
    show "uint n < 2 ^ 31" by (rule assms)
  qed
  finally show ?thesis .
qed

text \<open>
  Claim C6. For a handle attached to its window, with its control created, a resize
  notification sets the control's bounds to the client rectangle that the platform
  reports: origin \<open>(0, 0)\<close>, width and height the new client size. The platform
  reports client rectangles with the origin at zero; the conversion to \<open>float\<close> is
  exact for sizes up to \<open>2 ^ 24\<close>, well above what a resize notification can carry
  (it carries width and height as 16-bit words). Nothing else changes: the resulting
  state is the old one with that one field replaced, and the result is 0.
\<close>

theorem C6_resize_sets_bounds_to_client_rect:
  assumes "windows s h = Some w" "userdata w = p" "p \<noteq> 0"
    and "handles s p = Some self" "webview self = Some c"
    and "GetClientRect env h = \<lparr>r_left = 0, r_top = 0, r_right = cx, r_bottom = cy\<rparr>"
    and "0 \<le> sint cx" "sint cx \<le> 2 ^ 24" "0 \<le> sint cy" "sint cy \<le> 2 ^ 24"
  shows "WndProc env h WM_SIZE wParam lParam s =
           Inr (0, s\<lparr>handles := (handles s)(p \<mapsto>
                  self\<lparr>webview := Some (c\<lparr>Bounds :=
                    \<lparr>X = 0, Y = 0, Width = sint cx, Height = sint cy\<rparr>\<rparr>)\<rparr>)\<rparr>)"
proof -
  have "getClientRect env h = \<lparr>X = 0, Y = 0, Width = sint cx, Height = sint cy\<rparr>"
    using assms(6-10) by (simp add: getClientRect_def LONG_to_float_exact LONG_to_float_0)
  with WndProc_WM_SIZE [of s h w self c env wParam lParam] assms(1-5)
  show ?thesis by simp
qed

theorem C6_resize_sets_bounds_to_client_rect_witness:
  "WndProc (example_platform Discard) 0x2000 WM_SIZE 0 0x02310310 (example_sys example_options) =
     Inr (0, (example_sys example_options)\<lparr>handles := [0x1000 \<mapsto>
        (example_handle example_options)\<lparr>webview := Some (absent_sender\<lparr>Bounds :=
           \<lparr>X = 0, Y = 0, Width = 784, Height = 561\<rparr>\<rparr>)\<rparr>]\<rparr>)"
proof -
  have 1: "windows (example_sys example_options) 0x2000 = Some example_window"
    by (simp add: example_sys_def)
  have 2: "userdata example_window = 0x1000" by (simp add: example_window_def)
  have 3: "(0x1000 :: addr) \<noteq> 0" by simp
  have 4: "handles (example_sys example_options) 0x1000 = Some (example_handle example_options)"
    by (simp add: example_sys_def)
  have 5: "webview (example_handle example_options) = Some absent_sender"
    by (simp add: example_handle_def)
  have 6: "GetClientRect (example_platform Discard) 0x2000
             = \<lparr>r_left = 0, r_top = 0, r_right = 784, r_bottom = 561\<rparr>"
    by (simp add: example_platform_def example_client_def)
  have 7: "0 \<le> sint (784 :: LONG)" "sint (784 :: LONG) \<le> 2 ^ 24"
          "0 \<le> sint (561 :: LONG)" "sint (561 :: LONG) \<le> 2 ^ 24"
    by simp_all
  have 8: "handles (example_sys example_options) = [0x1000 \<mapsto> example_handle example_options]"
    by (simp add: example_sys_def)
  show ?thesis
    using C6_resize_sets_bounds_to_client_rect [OF 1 2 3 4 5 6 7, of 0 "0x02310310"]
    by (simp add: 8)
qed

text \<open>
  Claim C7, as stated, at a Configuration whose minimum width is \<open>2 ^ 32\<close>: the
  minimum track width reported is 0, not the configured minimum.
\<close>

theorem C7_wide_minimum_counterexample:
  "WndProc (example_platform Discard) 0x2000 WM_GETMINMAXINFO 0 0x3000
       (example_sys (example_options\<lparr>minimum_width := 0x100000000\<rparr>)) =
     Inr (0, (example_sys (example_options\<lparr>minimum_width := 0x100000000\<rparr>))\<lparr>minmaxinfo :=
        [0x3000 \<mapsto> example_MINMAXINFO\<lparr>ptMinTrackSize := \<lparr>pt_x = 0, pt_y = 300\<rparr>\<rparr>]\<rparr>)
   \<and> uint (minimum_width (example_options\<lparr>minimum_width := 0x100000000\<rparr>)) = 4294967296"
proof -
  let ?s = "example_sys (example_options\<lparr>minimum_width := 0x100000000\<rparr>)"
  have 1: "windows ?s 0x2000 = Some example_window" by (simp add: example_sys_def)
  have 2: "userdata example_window \<noteq> 0" by (simp add: example_window_def)
  have 3: "handles ?s (userdata example_window)
             = Some (example_handle (example_options\<lparr>minimum_width := 0x100000000\<rparr>))"
    by (simp add: example_sys_def example_window_def)
  have 4: "minmaxinfo ?s 0x3000 = Some example_MINMAXINFO" by (simp add: example_sys_def)
  have 5: "minmaxinfo ?s = [0x3000 \<mapsto> example_MINMAXINFO]" by (simp add: example_sys_def)
  have 6: "(4294967296 :: LONG) = 0" by simp
  have 7: "ucast (minimum_width (opts (example_handle (example_options\<lparr>minimum_width := 0x100000000\<rparr>))))
             = (0 :: LONG)"
    by (simp add: example_handle_def 6)
  have 8: "ucast (minimum_height (opts (example_handle (example_options\<lparr>minimum_width := 0x100000000\<rparr>))))
             = (300 :: LONG)"
    by (simp add: example_handle_def example_options_def)
  show ?thesis
    by (simp add: WndProc_WM_GETMINMAXINFO [OF 1 2 3 4] 5 7 8)
qed

text \<open>
  Claim C7, amended. For a handle attached to its window, a size-constraint query
  writes into the minimum track size the Configuration's minimum width and height,
  converted to the 32-bit \<open>LONG\<close> fields of the structure, and returns 0; every other
  field of the structure and the rest of the state stay as they were. The reported
  values equal the configured ones whenever these are below \<open>2 ^ 31\<close>, as 400 and 300
  are; a larger value is reported by its low 32 bits.
\<close>

theorem C7_minimum_track_size:
  assumes "windows s h = Some w" "userdata w = p" "p \<noteq> 0"
    and "handles s p = Some self" "minmaxinfo s lParam = Some lpMMI"
  shows "WndProc env h WM_GETMINMAXINFO wParam lParam s =
           Inr (0, s\<lparr>minmaxinfo := (minmaxinfo s)(lParam \<mapsto>
                  lpMMI\<lparr>ptMinTrackSize :=
                    \<lparr>pt_x = ucast (minimum_width (opts self)),
                     pt_y = ucast (minimum_height (opts self))\<rparr>\<rparr>)\<rparr>)
         \<and> (uint (minimum_width (opts self)) < 2 ^ 31 \<longrightarrow>
              sint (ucast (minimum_width (opts self)) :: LONG) = uint (minimum_width (opts self)))
         \<and> (uint (minimum_height (opts self)) < 2 ^ 31 \<longrightarrow>
              sint (ucast (minimum_height (opts self)) :: LONG) = uint (minimum_height (opts self)))"
  using assms WndProc_WM_GETMINMAXINFO [of s h w self lParam lpMMI env wParam]
  by (simp add: ucast_size_t_LONG)

theorem C7_minimum_track_size_witness:
  "WndProc (example_platform Discard) 0x2000 WM_GETMINMAXINFO 0 0x3000 (example_sys example_options) =
     Inr (0, (example_sys example_options)\<lparr>minmaxinfo :=
        [0x3000 \<mapsto> example_MINMAXINFO\<lparr>ptMinTrackSize := \<lparr>pt_x = 400, pt_y = 300\<rparr>\<rparr>]\<rparr>)
   \<and> sint (400 :: LONG) = 400 \<and> sint (300 :: LONG) = 300
   \<and> minimum_width example_options = 400 \<and> minimum_height example_options = 300"
proof -
  let ?s = "example_sys example_options"
  have 1: "windows ?s 0x2000 = Some example_window" by (simp add: example_sys_def)
  have 2: "userdata example_window = 0x1000" by (simp add: example_window_def)
  have 3: "(0x1000 :: addr) \<noteq> 0" by simp
  have 4: "handles ?s 0x1000 = Some (example_handle example_options)"
    by (simp add: example_sys_def)
  have 5: "minmaxinfo ?s 0x3000 = Some example_MINMAXINFO" by (simp add: example_sys_def)
  have 6: "minmaxinfo ?s = [0x3000 \<mapsto> example_MINMAXINFO]" by (simp add: example_sys_def)
  have 7: "opts (example_handle example_options) = example_options"
    by (simp add: example_handle_def)
  have 8: "minimum_width example_options = 400" "minimum_height example_options = 300"
    by (simp_all add: example_options_def)
  show ?thesis
    using C7_minimum_track_size [OF 1 2 3 4 5, of "example_platform Discard" 0]
    by (simp add: 6 7 8)
qed

lemma WndProc_WM_DESTROY_release:
  assumes "WndProc_WM_DESTROY window s = Inr s'" "handles s q = Some self" "handles s' q = None"
  shows "window = q \<and> trace s' = trace s @ [InvokeClosed (closed (opts self)) (data (opts self)), DeleteHandle q]"
  using assms
  by (auto simp: WndProc_WM_DESTROY_def split: if_splits option.splits)

lemma DestroyWindow_release:
  assumes "DestroyWindow h s = Inr s'" "handles s q = Some self" "handles s' q = None"
  shows "trace s' = trace s @ [CallDestroyWindow h,
           InvokeClosed (closed (opts self)) (data (opts self)), DeleteHandle q]"
proof (cases "windows s h")
  case None
  with assms show ?thesis by (simp add: DestroyWindow_def)
next
  case (Some w)
  let ?s1 = "s\<lparr>trace := trace s @ [CallDestroyWindow h]\<rparr>"
  from assms(1) Some obtain s2 where d: "WndProc_WM_DESTROY (userdata w) ?s1 = Inr s2"
    and e: "s' = s2\<lparr>windows := (windows s2)(h := None)\<rparr>"
    by (auto simp: DestroyWindow_def split: sum.splits)
  from assms(2) have "handles ?s1 q = Some self" by simp
  moreover from assms(3) e have "handles s2 q = None" by simp
  ultimately have "trace s2 = trace ?s1 @ [InvokeClosed (closed (opts self)) (data (opts self)), DeleteHandle q]"
    using WndProc_WM_DESTROY_release [OF d] by blast
  with e show ?thesis by simp
qed

lemma WndProc_release:
  assumes "WndProc env h msg wParam lParam s = Inr (r, s')"
    and "handles s q = Some self" "handles s' q = None"
  shows "(msg = WM_DESTROY \<or> msg = WM_CLOSE)
         \<and> trace s' = trace s @ (if msg = WM_CLOSE then [CallDestroyWindow h] else [])
              @ [InvokeClosed (closed (opts self)) (data (opts self)), DeleteHandle q]"
proof -
  consider (close) "msg = WM_CLOSE" | (destroy) "msg \<noteq> WM_CLOSE" "msg = WM_DESTROY"
    | (size) "msg \<noteq> WM_CLOSE" "msg \<noteq> WM_DESTROY" "msg = WM_SIZE"
    | (other) "msg \<noteq> WM_CLOSE" "msg \<noteq> WM_DESTROY" "msg \<noteq> WM_SIZE"
    by blast
  then show ?thesis
  proof cases
    case close
    with assms(1) have "DestroyWindow h s = Inr s'"
      by (auto simp: WndProc_def Let_def split: sum.splits)
    from DestroyWindow_release [OF this assms(2,3)] close show ?thesis by simp
  next
    case destroy
    with assms(1) have "WndProc_WM_DESTROY (GetWindowLongPtr_USERDATA s h) s = Inr s'"
      by (auto simp: WndProc_def Let_def split: sum.splits)
    from WndProc_WM_DESTROY_release [OF this assms(2,3)] destroy show ?thesis by simp
  next
    case size
    with assms have False
      by (auto simp: WndProc_def Let_def split: if_splits option.splits)
    then show ?thesis ..
  next
    case other
    with assms have False
      by (auto simp: WndProc_def Let_def split: if_splits option.splits)
    then show ?thesis ..
  qed
qed

lemma loop_iteration_release:
  assumes "loop_iteration env s = Inr s'" "handles s q = Some self" "handles s' q = None"
  shows "\<exists>pre. trace s' = trace s @ pre
           @ [InvokeClosed (closed (opts self)) (data (opts self)), DeleteHandle q]"
proof (cases "queue s")
  case Nil
  with assms show ?thesis by (simp add: loop_iteration_def GetMessage_def)
next
  case (Cons r rest)
  let ?s1 = "s\<lparr>queue := rest\<rparr>"
  let ?m = "retrieved_MSG r"
  have h1: "handles ?s1 q = Some self" using assms(2) by simp
  from assms(1,2,3) Cons have d: "DispatchMessage env ?m ?s1 = Inr s'"
    by (auto simp: loop_iteration_def GetMessage_def Let_def split: if_splits option.splits)
  then obtain w r' where "windows ?s1 (msg_hwnd ?m) = Some w"
    and "WndProc env (msg_hwnd ?m) (msg_message ?m) (msg_wParam ?m) (msg_lParam ?m) ?s1 = Inr (r', s')"
    using h1 assms(3)
    by (auto simp: DispatchMessage_def split: option.splits sum.splits)
  from WndProc_release [OF this(2) h1 assms(3)] show ?thesis by auto
qed

text \<open>
  Claim C8. For a handle attached to its window whose closed callback is set, the
  destroy notification calls the closed callback with the Configuration's user data
  pointer, once, then releases the handle, and returns 0: the trace grows by exactly
  these two entries, in this order. It is the only way a handle is released: when
  \<open>WndProc\<close> on any message, or an iteration of the event loop on any retrieval, turns
  a live handle into a released one, the message is the destroy notification, arriving
  directly or sent by \<open>DestroyWindow\<close> for a close request, and the trace ends with
  that handle's closed callback followed by its release.
\<close>

theorem C8_destroy_calls_closed_then_releases:
  "(windows s h = Some w \<longrightarrow> userdata w = p \<longrightarrow> p \<noteq> 0 \<longrightarrow> handles s p = Some self \<longrightarrow>
      closed (opts self) \<noteq> 0 \<longrightarrow>
      WndProc env h WM_DESTROY wParam lParam s =
        Inr (0, s\<lparr>trace := trace s @ [InvokeClosed (closed (opts self)) (data (opts self)),
                                       DeleteHandle p],
                 handles := (handles s)(p := None)\<rparr>))
   \<and> (WndProc env h msg wParam lParam s = Inr (r, s') \<longrightarrow> handles s q = Some self' \<longrightarrow>
        handles s' q = None \<longrightarrow>
        (msg = WM_DESTROY \<or> msg = WM_CLOSE)
        \<and> trace s' = trace s @ (if msg = WM_CLOSE then [CallDestroyWindow h] else [])
             @ [InvokeClosed (closed (opts self')) (data (opts self')), DeleteHandle q])
   \<and> (loop_iteration env s = Inr s'' \<longrightarrow> handles s q = Some self' \<longrightarrow> handles s'' q = None \<longrightarrow>
        (\<exists>pre. trace s'' = trace s @ pre
           @ [InvokeClosed (closed (opts self')) (data (opts self')), DeleteHandle q]))"
  using WndProc_WM_DESTROY_attached [of s h w self env wParam lParam]
    WndProc_release [of env h msg wParam lParam s r s' q self']
    loop_iteration_release [of env s s'' q self']
  by blast

theorem C8_destroy_calls_closed_then_releases_witness:
  "WndProc (example_platform Discard) 0x2000 WM_DESTROY 0 0 (example_sys example_options) =
     Inr (0, (example_sys example_options)\<lparr>trace := [InvokeClosed 0x7000 0x5000, DeleteHandle 0x1000],
            handles := Map.empty\<rparr>)"
proof -
  let ?s = "example_sys example_options"
  have 1: "windows ?s 0x2000 = Some example_window" by (simp add: example_sys_def)
  have 2: "userdata example_window = 0x1000" by (simp add: example_window_def)
  have 3: "(0x1000 :: addr) \<noteq> 0" by simp
  have 4: "handles ?s 0x1000 = Some (example_handle example_options)"
    by (simp add: example_sys_def)
  have 5: "closed (opts (example_handle example_options)) \<noteq> 0"
    by (simp add: example_handle_def example_options_def)
  have 6: "closed (opts (example_handle example_options)) = 0x7000"
          "data (opts (example_handle example_options)) = 0x5000"
    by (simp_all add: example_handle_def example_options_def)
  have 7: "trace ?s = []" "handles ?s = [0x1000 \<mapsto> example_handle example_options]"
    by (simp_all add: example_sys_def)
  from C8_destroy_calls_closed_then_releases
         [of ?s "0x2000" example_window "0x1000" "example_handle example_options"
             "example_platform Discard" 0 0]
  have "WndProc (example_platform Discard) 0x2000 WM_DESTROY 0 0 ?s =
        Inr (0, ?s\<lparr>trace := trace ?s @ [InvokeClosed (closed (opts (example_handle example_options)))
                                        (data (opts (example_handle example_options))),
                                       DeleteHandle 0x1000],
                 handles := (handles ?s)(0x1000 := None)\<rparr>)"
    using 1 2 3 4 5 by blast
  then show ?thesis by (simp add: 6 7)
qed

subsection \<open>The blocking bridge\<close>

text \<open>
  Claim C2. When the operation's status is already \<open>Completed\<close>, \<open>block\<close> returns the
  operation's result and leaves the state as it is, whatever goes on around it: no
  event is created, no completion handler registered, no wait entered, and no entry of
  the queue is pumped.
\<close>

theorem C2_block_completed_returns_at_once:
  "Status async = Completed \<Longrightarrow> block env async as s = Inr (Some (Results async), s)"
  by (simp add: block_def GetResults_def)

theorem C2_block_completed_returns_at_once_witness:
  "block (example_platform Discard) \<lparr>Status = Completed, Results = absent_sender\<rparr>
     [WPump, WComplete \<lparr>Status = Completed, Results = present_sender\<rparr>]
     (example_sys example_options)
   = Inr (Some absent_sender, example_sys example_options)"
  using C2_block_completed_returns_at_once
          [of "\<lparr>Status = Completed, Results = absent_sender\<rparr>" "example_platform Discard"
              "[WPump, WComplete \<lparr>Status = Completed, Results = present_sender\<rparr>]"
              "example_sys example_options"]
  by simp

subsection \<open>What the window procedure leaves alone\<close>

lemma executed_append:
  "executed (s\<lparr>trace := trace s @ es\<rparr>) = executed s @ filter is_dispatch_event es"
  by (simp add: executed_def)

lemma WndProc_WM_DESTROY_frame:
  assumes "WndProc_WM_DESTROY window s = Inr s'"
  shows "queue s' = queue s \<and> status s' = status s \<and> dispatches s' = dispatches s
         \<and> MAIN_THREAD s' = MAIN_THREAD s \<and> executed s' = executed s"
  using assms
  by (auto simp: WndProc_WM_DESTROY_def executed_def split: if_splits option.splits)

lemma DestroyWindow_frame:
  assumes "DestroyWindow h s = Inr s'"
  shows "queue s' = queue s \<and> status s' = status s \<and> dispatches s' = dispatches s
         \<and> MAIN_THREAD s' = MAIN_THREAD s \<and> executed s' = executed s"
proof (cases "windows s h")
  case None
  with assms show ?thesis by (simp add: DestroyWindow_def)
next
  case (Some w)
  let ?s1 = "s\<lparr>trace := trace s @ [CallDestroyWindow h]\<rparr>"
  from assms Some obtain s2 where d: "WndProc_WM_DESTROY (userdata w) ?s1 = Inr s2"
    and e: "s' = s2\<lparr>windows := (windows s2)(h := None)\<rparr>"
    by (auto simp: DestroyWindow_def split: sum.splits)
  have "executed ?s1 = executed s" by (simp add: executed_def)
  with WndProc_WM_DESTROY_frame [OF d] e show ?thesis by (simp add: executed_def)
qed

lemma WndProc_frame:
  assumes "WndProc env h msg wParam lParam s = Inr (r, s')"
  shows "queue s' = queue s \<and> status s' = status s \<and> dispatches s' = dispatches s
         \<and> MAIN_THREAD s' = MAIN_THREAD s \<and> executed s' = executed s"
proof -
  consider (close) "msg = WM_CLOSE" | (destroy) "msg \<noteq> WM_CLOSE" "msg = WM_DESTROY"
    | (other) "msg \<noteq> WM_CLOSE" "msg \<noteq> WM_DESTROY"
    by blast
  then show ?thesis
  proof cases
    case close
    with assms have "DestroyWindow h s = Inr s'"
      by (auto simp: WndProc_def Let_def split: sum.splits)
    then show ?thesis by (rule DestroyWindow_frame)
  next
    case destroy
    with assms have "WndProc_WM_DESTROY (GetWindowLongPtr_USERDATA s h) s = Inr s'"
      by (auto simp: WndProc_def Let_def split: sum.splits)
    then show ?thesis by (rule WndProc_WM_DESTROY_frame)
  next
    case other
    with assms show ?thesis
      by (auto simp: WndProc_def Let_def executed_def split: if_splits option.splits)
  qed
qed

lemma DispatchMessage_frame:
  assumes "DispatchMessage env msg s = Inr s'"
  shows "queue s' = queue s \<and> status s' = status s \<and> dispatches s' = dispatches s
         \<and> MAIN_THREAD s' = MAIN_THREAD s \<and> executed s' = executed s"
proof (cases "windows s (msg_hwnd msg)")
  case None
  with assms show ?thesis by (simp add: DispatchMessage_def)
next
  case (Some w)
  with assms obtain r where
    "WndProc env (msg_hwnd msg) (msg_message msg) (msg_wParam msg) (msg_lParam msg) s = Inr (r, s')"
    by (auto simp: DispatchMessage_def split: sum.splits)
  then show ?thesis by (rule WndProc_frame)
qed

subsection \<open>One iteration of the loop\<close>

lemma loop_iteration_blocked:
  "queue s = [] \<Longrightarrow> loop_iteration env s = Inr s"
  by (simp add: loop_iteration_def GetMessage_def)


lemma loop_iteration_exit:
  "queue s = r # q \<Longrightarrow> is_exit r \<Longrightarrow> loop_iteration env s = Inr (s\<lparr>queue := q, status := Returned\<rparr>)"
  by (auto simp: loop_iteration_def GetMessage_def is_exit_def)

lemma loop_iteration_window:
  "queue s = r # q \<Longrightarrow> \<not> is_exit r \<Longrightarrow> msg_hwnd (retrieved_MSG r) \<noteq> 0 \<Longrightarrow>
   loop_iteration env s = DispatchMessage env (retrieved_MSG r) (s\<lparr>queue := q\<rparr>)"
  by (auto simp: loop_iteration_def GetMessage_def is_exit_def)



lemma loop_iteration_queue_status:
  assumes "loop_iteration env s = Inr s'" "queue s = r # q"
  shows "queue s' = q \<and> MAIN_THREAD s' = MAIN_THREAD s
         \<and> status s' = (if is_exit r then Returned else status s)"
proof (cases "is_exit r")
  case True
  with assms loop_iteration_exit [of s r q env] show ?thesis by auto
next
  case False
  show ?thesis
  proof (cases "msg_hwnd (retrieved_MSG r) \<noteq> 0")
    case True
    with assms False have "DispatchMessage env (retrieved_MSG r) (s\<lparr>queue := q\<rparr>) = Inr s'"
      by (simp add: loop_iteration_window)
    from DispatchMessage_frame [OF this] False show ?thesis by simp
  next
    case no_window: False
    with assms False show ?thesis
      by (auto simp: loop_iteration_def GetMessage_def is_exit_def Let_def
          split: if_splits option.splits)
  qed
qed

subsection \<open>When the loop is left\<close>

lemma message_loop_not_running:
  "status s \<noteq> Running \<Longrightarrow> message_loop env n s = Inr s"
  by (cases n) simp_all

lemma message_loop_Suc_running:
  "status s = Running \<Longrightarrow> loop_iteration env s = Inr s1 \<Longrightarrow>
   message_loop env (Suc n) s = message_loop env n s1"
  by simp

lemma message_loop_Suc_Inr:
  assumes "message_loop env (Suc n) s = Inr s'" "status s = Running"
  obtains s1 where "loop_iteration env s = Inr s1" "message_loop env n s1 = Inr s'"
  using assms by (auto split: sum.splits)

lemma message_loop_returned_iff:
  "message_loop env n s = Inr s' \<Longrightarrow> status s = Running \<Longrightarrow>
   (status s' = Returned) = (\<exists>k<n. k < length (queue s) \<and> is_exit (queue s ! k))
   \<and> (status s' = Returned \<or> status s' = Running)"
proof (induction n arbitrary: s)
  case 0
  then show ?case by simp
next
  case (Suc n)
  from Suc.prems obtain s1 where it: "loop_iteration env s = Inr s1"
    and rest: "message_loop env n s1 = Inr s'"
    by (rule message_loop_Suc_Inr)
  show ?case
  proof (cases "queue s")
    case Nil
    with it have "s1 = s" by (simp add: loop_iteration_blocked)
    with Suc.IH [OF rest] Suc.prems(2) Nil show ?thesis by auto
  next
    case (Cons r q)
    from loop_iteration_queue_status [OF it Cons]
    have q1: "queue s1 = q" and st1: "status s1 = (if is_exit r then Returned else status s)"
      by simp_all
    show ?thesis
    proof (cases "is_exit r")
      case True
      with st1 have "status s1 \<noteq> Running" by simp
      from message_loop_not_running [OF this, of env n] rest have "s' = s1" by simp
      moreover have "\<exists>k<Suc n. k < length (queue s) \<and> is_exit (queue s ! k)"
        using True Cons by (intro exI [of _ 0]) simp
      ultimately show ?thesis using st1 True by simp
    next
      case False
      with st1 Suc.prems(2) have run1: "status s1 = Running" by simp
      from Suc.IH [OF rest run1] q1
      have ih: "(status s' = Returned) = (\<exists>k<n. k < length q \<and> is_exit (q ! k))"
        and two: "status s' = Returned \<or> status s' = Running" by blast+
      have "(\<exists>k<Suc n. k < length (r # q) \<and> is_exit ((r # q) ! k))
            = (\<exists>k<n. k < length q \<and> is_exit (q ! k))"
      proof
        assume "\<exists>k<Suc n. k < length (r # q) \<and> is_exit ((r # q) ! k)"
        then obtain k where k: "k < Suc n" "k < length (r # q)" "is_exit ((r # q) ! k)" by blast
        with False obtain j where "k = Suc j" by (cases k) auto
        with k show "\<exists>k<n. k < length q \<and> is_exit (q ! k)" by auto
      next
        assume "\<exists>k<n. k < length q \<and> is_exit (q ! k)"
        then obtain j where "j < n" "j < length q" "is_exit (q ! j)" by blast
        then show "\<exists>k<Suc n. k < length (r # q) \<and> is_exit ((r # q) ! k)"
          by (intro exI [of _ "Suc j"]) simp
      qed
      with ih two Cons show ?thesis by simp
    qed
  qed
qed

lemma is_exit_iff:
  "is_exit r = (r = Failure \<or> (\<exists>m. r = Message m \<and> msg_message m = WM_QUIT))"
  by (cases r) (auto simp: is_exit_def GetMessage_result_def)

lemma message_loop_after_exit:
  assumes "status s = Running"
    and "message_loop env (Suc (length (queue s))) (webview_exit s) = Inr s'"
  shows "status s' = Returned"
proof -
  let ?quit = "Message \<lparr>msg_hwnd = 0, msg_message = WM_QUIT, msg_wParam = 0, msg_lParam = 0\<rparr>"
  have q: "queue (webview_exit s) = queue s @ [?quit]" and st: "status (webview_exit s) = Running"
    using assms(1) by (simp_all add: webview_exit_def)
  have "is_exit ?quit" by (simp add: is_exit_iff)
  then have "\<exists>k<Suc (length (queue s)). k < length (queue (webview_exit s))
               \<and> is_exit (queue (webview_exit s) ! k)"
    by (intro exI [of _ "length (queue s)"]) (simp add: q)
  with message_loop_returned_iff [OF assms(2) st] show ?thesis by simp
qed

text \<open>
  Claim C9, as stated, at a retrieval that fails: no quit has been posted and
  \<open>webview_exit\<close> has not been called; the only entry the loop retrieves is a failure,
  \<open>GetMessage\<close> yields \<open>-1\<close>, the loop breaks and \<open>webview_start\<close> returns.
\<close>

theorem C9_retrieval_failure_counterexample:
  "run (example_platform Discard) [Arrive Failure, Iterate] (example_sys example_options)
     = Inr ((example_sys example_options)\<lparr>status := Returned\<rparr>)
   \<and> status (example_sys example_options) = Running
   \<and> GetMessage_result Failure = - 1"
  by (simp add: step_def loop_iteration_def GetMessage_def GetMessage_result_def example_sys_def)

text \<open>
  Claim C9, amended. \<open>webview_start\<close> returns only after \<open>GetMessage\<close> has yielded 0 or
  \<open>-1\<close>: the loop, running, is left within \<open>n\<close> iterations exactly when one of the
  first \<open>n\<close> entries of the queue is a \<open>WM_QUIT\<close> message, which is what \<open>webview_exit\<close>
  posts, or a failed retrieval; on every other retrieval the loop goes on, and with
  neither it keeps running. Once \<open>webview_exit\<close> has posted the quit, the loop is left
  as soon as the entries ahead of it have been handled. \<open>webview_start\<close> is this loop,
  entered after the entry callback.
\<close>

theorem C9_loop_left_on_quit_or_failure:
  "(status s = Running \<longrightarrow> message_loop env n s = Inr s' \<longrightarrow>
      (status s' = Returned) = (\<exists>k<n. k < length (queue s) \<and> is_exit (queue s ! k))
      \<and> (status s' = Returned \<or> status s' = Running))
   \<and> is_exit r = (r = Failure \<or> (\<exists>m. r = Message m \<and> msg_message m = WM_QUIT))
   \<and> (status s = Running \<longrightarrow>
        message_loop env (Suc (length (queue s))) (webview_exit s) = Inr s'' \<longrightarrow>
        status s'' = Returned)
   \<and> (fn (s0\<lparr>MAIN_THREAD := ui_thread env, status := Running\<rparr>) = Inr s \<longrightarrow>
        webview_start env fn n s0 = message_loop env n s)"
proof -
  have "fn (s0\<lparr>MAIN_THREAD := ui_thread env, status := Running\<rparr>) = Inr s \<longrightarrow>
        webview_start env fn n s0 = message_loop env n s"
    by (simp add: webview_start_def)
  with message_loop_returned_iff [of env n s s'] is_exit_iff [of r]
    message_loop_after_exit [of s env s'']
  show ?thesis by blast
qed

theorem C9_loop_left_on_quit_or_failure_witness:
  "status (example_sys example_options) = Running
   \<and> message_loop (example_platform Discard) 1 (webview_exit (example_sys example_options))
       = Inr ((example_sys example_options)\<lparr>status := Returned\<rparr>)
   \<and> status ((example_sys example_options)\<lparr>status := Returned\<rparr>) = Returned"
proof -
  let ?s = "example_sys example_options"
  have 1: "status ?s = Running" by (simp add: example_sys_def)
  have 2: "length (queue ?s) = 0" by (simp add: example_sys_def)
  have 3: "message_loop (example_platform Discard) 1 (webview_exit ?s) = Inr (?s\<lparr>status := Returned\<rparr>)"
    by (simp add: webview_exit_def loop_iteration_def GetMessage_def GetMessage_result_def
        retrieved_MSG_def example_sys_def)
  from C9_loop_left_on_quit_or_failure
         [of ?s "example_platform Discard" 1 "?s\<lparr>status := Returned\<rparr>" Failure
             "?s\<lparr>status := Returned\<rparr>"]
  have "status (?s\<lparr>status := Returned\<rparr>) = Returned"
    using 1 2 3 by simp
  with 1 3 show ?thesis by simp
qed

subsection \<open>The wait inside the bridge\<close>

lemma cowait_pump_window:
  "queue s = r # q \<Longrightarrow> is_window_message r \<Longrightarrow>
   cowait_pump env s = DispatchMessage env (retrieved_MSG r) (s\<lparr>queue := q\<rparr>)"
  by (cases "cowait_policy env") (simp_all add: cowait_pump_def)

lemma cowait_pump_frame:
  assumes "cowait_pump env s = Inr s'"
  shows "executed s' = executed s"
proof (cases "cowait_policy env")
  case Discard
  show ?thesis
  proof (cases "queue s")
    case Nil
    with assms Discard show ?thesis by (simp add: cowait_pump_def)
  next
    case (Cons r q)
    show ?thesis
    proof (cases "is_window_message r")
      case True
      with assms Discard Cons
      have "DispatchMessage env (retrieved_MSG r) (s\<lparr>queue := q\<rparr>) = Inr s'"
        by (simp add: cowait_pump_def)
      from DispatchMessage_frame [OF this] show ?thesis by (simp add: executed_def)
    next
      case False
      with assms Discard Cons show ?thesis by (auto simp: cowait_pump_def executed_def)
    qed
  qed
next
  case Leave
  show ?thesis
  proof (cases "dropWhile (\<lambda>r. \<not> is_window_message r) (queue s)")
    case Nil
    with assms Leave show ?thesis by (simp add: cowait_pump_def)
  next
    case (Cons r q)
    with assms Leave
    have "DispatchMessage env (retrieved_MSG r)
            (s\<lparr>queue := takeWhile (\<lambda>r. \<not> is_window_message r) (queue s) @ q\<rparr>) = Inr s'"
      by (simp add: cowait_pump_def)
    from DispatchMessage_frame [OF this] show ?thesis by (simp add: executed_def)
  qed
qed

lemma webview_dispatch_executed: "executed (webview_dispatch env p dat fn s) = executed s"
  by (simp add: webview_dispatch_def PostThreadMessage_def executed_def)

lemma CoWait_frame:
  "CoWaitForMultipleHandles env as s = Inr (r, s') \<Longrightarrow>
   executed s' = executed s \<and> (r \<noteq> None) = (\<exists>done. WComplete done \<in> set as)"
proof (induction as arbitrary: s)
  case Nil
  then show ?case by simp
next
  case (Cons a as)
  show ?case
  proof (cases a)
    case (WPost p dat fn)
    with Cons.prems have "CoWaitForMultipleHandles env as (webview_dispatch env p dat fn s) = Inr (r, s')"
      by simp
    from Cons.IH [OF this] WPost show ?thesis by (simp add: webview_dispatch_executed)
  next
    case (WArrive x)
    with Cons.prems have "CoWaitForMultipleHandles env as (s\<lparr>queue := queue s @ [x]\<rparr>) = Inr (r, s')"
      by simp
    from Cons.IH [OF this] WArrive show ?thesis by (simp add: executed_def)
  next
    case WPump
    with Cons.prems obtain s1 where p: "cowait_pump env s = Inr s1"
      and rest: "CoWaitForMultipleHandles env as s1 = Inr (r, s')"
      by (auto split: sum.splits)
    from Cons.IH [OF rest] cowait_pump_frame [OF p] WPump show ?thesis by simp
  next
    case (WComplete fin)
    with Cons.prems show ?thesis by auto
  qed
qed

lemma block_pending_frame:
  assumes "Status async = Started" "block env async as s = Inr (res, s')"
  shows "executed s' = executed s \<and> (res \<noteq> None) = (\<exists>done. WComplete done \<in> set as)"
proof -
  let ?s1 = "s\<lparr>trace := trace s @ [CallCreateEvent, CallCompleted, CallCoWaitForMultipleHandles]\<rparr>"
  have e1: "executed ?s1 = executed s" by (simp add: executed_def)
  from assms obtain r s2 where w: "CoWaitForMultipleHandles env as ?s1 = Inr (r, s2)"
    by (auto simp: block_def Let_def split: sum.splits)
  from CoWait_frame [OF w] e1 have e2: "executed s2 = executed s"
    and c: "(r \<noteq> None) = (\<exists>done. WComplete done \<in> set as)" by simp_all
  show ?thesis
  proof (cases r)
    case None
    with assms w have "res = None" "s' = s2" by (simp_all add: block_def Let_def)
    with e2 c None show ?thesis by simp
  next
    case (Some fin)
    with assms w obtain v where "res = Some v" "s' = s2\<lparr>trace := trace s2 @ [CallCloseHandle]\<rparr>"
      by (auto simp: block_def Let_def split: sum.splits)
    with e2 c Some show ?thesis by (simp add: executed_def)
  qed
qed

text \<open>
  Claim C3, as stated, at an item posted during the wait. The operation is pending
  when \<open>block\<close> is called; while it waits a thread posts a dispatch item, the pump of
  the wait runs, and the operation completes. \<open>block\<close> returns the result, and the
  trace holds the four calls of \<open>block\<close> itself and no call of the item's function:
  the item has not been executed. Under the one policy its message has been dropped,
  under the other it is still in the queue.
\<close>

theorem C3_item_posted_during_wait_counterexample:
  "block (example_platform Discard) \<lparr>Status = Started, Results = absent_sender\<rparr>
      [WPost 0x9000 0x11 0x22, WPump, WComplete \<lparr>Status = Completed, Results = present_sender\<rparr>]
      (example_sys example_options)
     = Inr (Some present_sender, (example_sys example_options)
         \<lparr>trace := [CallCreateEvent, CallCompleted, CallCoWaitForMultipleHandles, CallCloseHandle],
          dispatches := [0x9000 \<mapsto> \<lparr>data' = 0x11, func = 0x22\<rparr>]\<rparr>)
   \<and> block (example_platform Leave) \<lparr>Status = Started, Results = absent_sender\<rparr>
      [WPost 0x9000 0x11 0x22, WPump, WComplete \<lparr>Status = Completed, Results = present_sender\<rparr>]
      (example_sys example_options)
     = Inr (Some present_sender, (example_sys example_options)
         \<lparr>trace := [CallCreateEvent, CallCompleted, CallCoWaitForMultipleHandles, CallCloseHandle],
          dispatches := [0x9000 \<mapsto> \<lparr>data' = 0x11, func = 0x22\<rparr>],
          queue := [Message \<lparr>msg_hwnd = 0, msg_message = WM_APP_DISPATCH,
                             msg_wParam = 0, msg_lParam = 0x9000\<rparr>]\<rparr>)"
  by (simp add: block_def Let_def GetResults_def cowait_pump_def is_window_message_def
      webview_dispatch_def PostThreadMessage_def example_sys_def example_platform_def)

text \<open>
  Claim C3, amended. For an operation still pending when \<open>block\<close> is called, the wait
  goes on until the completion signal fires: \<open>block\<close> returns a result exactly when
  the operation completes. Until then the wait keeps servicing native messages: a
  cycle of its pump hands the window message at the head of the queue to the window's
  procedure. Dispatch-queue entries are not serviced by the wait: when \<open>block\<close>
  returns, or is still waiting, no dispatch item has been executed or released beyond
  those executed before the call. An item posted during the wait is executed, if at
  all, by the event loop afterwards.
\<close>

theorem C3_wait_services_windows_not_dispatch_items:
  "(Status async = Started \<longrightarrow> block env async as s = Inr (res, s') \<longrightarrow>
      executed s' = executed s \<and> (res \<noteq> None) = (\<exists>done. WComplete done \<in> set as))
   \<and> (queue s = r # q \<longrightarrow> is_window_message r \<longrightarrow>
        cowait_pump env s = DispatchMessage env (retrieved_MSG r) (s\<lparr>queue := q\<rparr>))"
  using block_pending_frame [of async env as s res s'] cowait_pump_window [of s r q env]
  by blast

theorem C3_wait_services_windows_not_dispatch_items_witness:
  "Status \<lparr>Status = Started, Results = absent_sender\<rparr> = Started
   \<and> (\<exists>res s'. block (example_platform Leave) \<lparr>Status = Started, Results = absent_sender\<rparr>
         [WPost 0x9000 0x11 0x22, WPump, WComplete \<lparr>Status = Completed, Results = present_sender\<rparr>]
         (example_sys example_options) = Inr (res, s')
       \<and> executed s' = [] \<and> res \<noteq> None)"
proof -
  let ?env = "example_platform Leave"
  let ?async = "\<lparr>Status = Started, Results = absent_sender\<rparr>"
  let ?as = "[WPost 0x9000 0x11 0x22, WPump, WComplete \<lparr>Status = Completed, Results = present_sender\<rparr>]"
  let ?s = "example_sys example_options"
  have 1: "Status ?async = Started" by simp
  have "\<exists>res s'. block ?env ?async ?as ?s = Inr (res, s')"
    by (simp add: block_def Let_def GetResults_def cowait_pump_def is_window_message_def
        webview_dispatch_def PostThreadMessage_def example_sys_def example_platform_def)
  then obtain res s' where 2: "block ?env ?async ?as ?s = Inr (res, s')" by blast
  have 3: "executed ?s = []" by (simp add: executed_def example_sys_def)
  from C3_wait_services_windows_not_dispatch_items [of ?async ?env ?as ?s res s'] 1 2
  have "executed s' = executed ?s" and "(res \<noteq> None) = (\<exists>done. WComplete done \<in> set ?as)"
    by blast+
  then have "executed s' = []" and "res \<noteq> None" by (simp_all add: 3)
  with 1 2 show ?thesis by blast
qed

subsection \<open>Dispatch items are conserved\<close>




lemma executions_Cons: "executions (x # xs) = execution x @ executions xs"
  by (simp add: executions_def)


































subsection \<open>Nothing is executed while the loop does not run\<close>







text \<open>
  Before \<open>webview_start\<close> has stored the thread identifier, a post goes to thread 0
  and does not reach the queue of the UI thread.
\<close>

lemma webview_dispatch_before_start:
  "ui_thread env \<noteq> 0 \<Longrightarrow> queue (webview_dispatch env p dat fn boot) = []"
  by (simp add: webview_dispatch_def PostThreadMessage_def boot_def)





text \<open>
  A wait whose pump discards window-less messages loses the item posted during it: after
  \<open>block\<close> has returned, the loop is running, no quit is queued, the item is allocated,
  and no message points to it.
\<close>

lemma wait_discards_item_example:
  "run (example_platform Discard)
     [Block \<lparr>Status = Started, Results = absent_sender\<rparr>
        [WPost 0x9000 0x11 0x22, WPump,
         WComplete \<lparr>Status = Completed, Results = present_sender\<rparr>]]
     (example_sys example_options)
   = Inr ((example_sys example_options)
       \<lparr>trace := [CallCreateEvent, CallCompleted, CallCoWaitForMultipleHandles, CallCloseHandle],
        dispatches := [0x9000 \<mapsto> \<lparr>data' = 0x11, func = 0x22\<rparr>]\<rparr>)"
  by (simp add: step_def block_def Let_def GetResults_def cowait_pump_def is_window_message_def
      webview_dispatch_def PostThreadMessage_def example_sys_def example_platform_def)

end
